theory Spec2Isabelle
  imports Main
begin

section \<open>Exceptions\<close>

text \<open>
  The exception classes of \<^verbatim>\<open>filestore_exceptions.py\<close> that the modelled functions raise,
  together with the Python built-in exceptions that occur on the modelled paths. A raised
  exception is the \<open>Inl\<close> branch of a sum, or the \<open>Raises\<close> branch of an outcome.
\<close>

datatype exn =
    DocumentException
  | DocumentNotFoundError
  | DocumentAlreadyExistsError
  | IndexException
  | IndexAlreadyExistsError
  | IndexNotFoundError
  | QueryException
  | TransactionException
  | TransactionAbortedError
  | DeadlockDetectedError
  | StorageException
  | ConfigurationException
  | ConcurrencyException
  | TypeError
  | ValueError
  | KeyError
  | IndexError
  | RuntimeError
  | QueueFull

section \<open>Index manager: configuration and text indexes\<close>

text \<open>\<^verbatim>\<open>IndexManagerConfig\<close> of \<^verbatim>\<open>index_manager_config.py\<close>.\<close>

record index_manager_config =
  enable_ref_indexing :: bool
  enable_compound_indexes :: bool
  enable_partial_indexes :: bool
  enable_text_search :: bool
  enable_async_updates :: bool
  enable_usage_statistics :: bool
  async_update_queue_size :: int
  text_search_language :: string

text \<open>
  The text part of \<^verbatim>\<open>IndexManager\<close>: \<^verbatim>\<open>text_indexes\<close> is a dict from index name to a
  dict from token to the list of document ids (the posting list, duplicates kept).
\<close>

type_synonym text_index = "string \<rightharpoonup> int list"

record index_manager =
  config :: index_manager_config
  text_indexes :: "string \<rightharpoonup> text_index"

definition new_index_manager :: "index_manager_config \<Rightarrow> index_manager" where
  "new_index_manager cfg = \<lparr>config = cfg, text_indexes = Map.empty\<rparr>"

text \<open>\<^verbatim>\<open>d.get(k, default)\<close> of a Python dict.\<close>

definition dict_get :: "('k \<rightharpoonup> 'v) \<Rightarrow> 'k \<Rightarrow> 'v \<Rightarrow> 'v" where
  "dict_get d k dflt = (case d k of None \<Rightarrow> dflt | Some v \<Rightarrow> v)"

subsection \<open>Tokenisation\<close>

text \<open>
  \<^verbatim>\<open>_tokenize\<close> is \<^verbatim>\<open>re.findall(r'\w+', text.lower())\<close>. The model covers ASCII text: a
  word character is an ASCII letter, a digit or the underscore, and \<open>lower\<close> maps the
  capital ASCII letters to the small ones.
\<close>

definition is_word_char :: "char \<Rightarrow> bool" where
  "is_word_char c \<longleftrightarrow>
     c \<in> set ''abcdefghijklmnopqrstuvwxyzABCDEFGHIJKLMNOPQRSTUVWXYZ0123456789_''"

definition lower_char :: "char \<Rightarrow> char" where
  "lower_char c =
     (case map_of (zip ''ABCDEFGHIJKLMNOPQRSTUVWXYZ'' ''abcdefghijklmnopqrstuvwxyz'') c of
        None \<Rightarrow> c
      | Some l \<Rightarrow> l)"

definition lower :: "string \<Rightarrow> string" where
  "lower text = map lower_char text"

text \<open>
  \<open>findall_word cur cs\<close> scans \<open>cs\<close> from the left with the current maximal run \<open>cur\<close> of
  word characters; a run ends at the first other character or at the end of the text.
\<close>

fun findall_word :: "string \<Rightarrow> string \<Rightarrow> string list" where
  "findall_word cur [] = (if cur = [] then [] else [cur])"
| "findall_word cur (c # cs) =
     (if is_word_char c then findall_word (cur @ [c]) cs
      else if cur = [] then findall_word [] cs
      else cur # findall_word [] cs)"

definition tokenize :: "string \<Rightarrow> string list" where
  "tokenize text = findall_word [] (lower text)"

subsection \<open>Python sets of document ids\<close>

text \<open>
  A Python \<^verbatim>\<open>set\<close> is represented by a list without duplicates. The order in which
  \<^verbatim>\<open>list(s)\<close> enumerates a set is not specified by Python; the representation fixes one
  order, and the theorems speak about the elements and their multiplicity only.
\<close>

definition py_set :: "int list \<Rightarrow> int list" where
  "py_set xs = remdups xs"

text \<open>\<^verbatim>\<open>set.intersection(s, *others)\<close>: the elements of \<open>s\<close> that are in every other set.\<close>

definition set_intersection :: "int list \<Rightarrow> int list list \<Rightarrow> int list" where
  "set_intersection s others = filter (\<lambda>x. \<forall>t \<in> set others. x \<in> set t) s"

subsection \<open>Operations on text indexes\<close>

text \<open>
  \<^verbatim>\<open>create_text_index\<close>: both the configuration error and the already-exists error are raised
  inside the \<^verbatim>\<open>try\<close> whose \<^verbatim>\<open>except Exception\<close> re-raises \<^verbatim>\<open>IndexException\<close>.
\<close>

definition create_text_index :: "index_manager \<Rightarrow> string \<Rightarrow> exn + index_manager" where
  "create_text_index m name =
     (if \<not> enable_text_search (config m) then Inl IndexException
      else if name \<in> dom (text_indexes m) then Inl IndexException
      else Inr (m\<lparr>text_indexes := (text_indexes m)(name \<mapsto> Map.empty)\<rparr>))"

text \<open>
  \<^verbatim>\<open>_insert_text_index\<close>: every token of the text gets the document id appended to its
  posting list. \<^verbatim>\<open>self.text_indexes[index_name]\<close> is evaluated inside the loop, so a missing
  index raises \<^verbatim>\<open>KeyError\<close> (re-raised as \<^verbatim>\<open>IndexException\<close>) at the first token, before any
  mutation, and a text without tokens never looks the index up.
\<close>

definition append_posting :: "int \<Rightarrow> string \<Rightarrow> text_index \<Rightarrow> text_index" where
  "append_posting doc_id word idx = idx(word \<mapsto> dict_get idx word [] @ [doc_id])"

definition insert_text_index ::
    "index_manager \<Rightarrow> string \<Rightarrow> string \<Rightarrow> int \<Rightarrow> exn + index_manager" where
  "insert_text_index m index_name text doc_id =
     (let words = tokenize text in
      if words = [] then Inr m
      else case text_indexes m index_name of
             None \<Rightarrow> Inl IndexException
           | Some idx \<Rightarrow>
               Inr (m\<lparr>text_indexes :=
                      (text_indexes m)(index_name \<mapsto> fold (append_posting doc_id) words idx)\<rparr>))"

text \<open>
  \<^verbatim>\<open>text_search\<close>. The configuration error is raised inside the \<^verbatim>\<open>try\<close> and leaves it as
  \<^verbatim>\<open>QueryException\<close>. The list comprehension looks the index up once per token, so
  \<^verbatim>\<open>KeyError\<close> (re-raised as \<^verbatim>\<open>IndexNotFoundError\<close>) needs at least one token. With no
  token the result is \<^verbatim>\<open>list(set())\<close>; otherwise it is the list of the intersection of the
  tokens' posting sets, a token without posting list giving \<^verbatim>\<open>set([])\<close>.
\<close>

definition text_search :: "index_manager \<Rightarrow> string \<Rightarrow> string \<Rightarrow> exn + int list" where
  "text_search m index_name query =
     (if \<not> enable_text_search (config m) then Inl QueryException
      else
        let words = tokenize query in
        if words = [] then Inr []
        else case text_indexes m index_name of
               None \<Rightarrow> Inl IndexNotFoundError
             | Some idx \<Rightarrow>
                 (let results = map (\<lambda>word. py_set (dict_get idx word [])) words
                  in Inr (set_intersection (hd results) (tl results))))"

text \<open>
  The states of an index manager that its constructor and the two mutating operations on
  text indexes can produce.
\<close>

inductive reachable :: "index_manager \<Rightarrow> bool" where
  reachable_new: "reachable (new_index_manager cfg)"
| reachable_create:
    "reachable m \<Longrightarrow> create_text_index m name = Inr m' \<Longrightarrow> reachable m'"
| reachable_insert:
    "reachable m \<Longrightarrow> insert_text_index m name text doc_id = Inr m' \<Longrightarrow> reachable m'"

text \<open>Example data: a configuration with text search on, and a small populated index.\<close>

definition text_config :: index_manager_config where
  "text_config =
     \<lparr>enable_ref_indexing = False, enable_compound_indexes = False,
      enable_partial_indexes = False, enable_text_search = True,
      enable_async_updates = False, enable_usage_statistics = False,
      async_update_queue_size = 1000, text_search_language = ''english''\<rparr>"

definition manager_created :: index_manager where
  "manager_created =
     (new_index_manager text_config)\<lparr>text_indexes := [''notes'' \<mapsto> Map.empty]\<rparr>"

definition manager_one :: index_manager where
  "manager_one =
     (new_index_manager text_config)
       \<lparr>text_indexes := [''notes'' \<mapsto> [''red'' \<mapsto> [1], ''fox'' \<mapsto> [1]]]\<rparr>"

definition manager_two :: index_manager where
  "manager_two =
     (new_index_manager text_config)
       \<lparr>text_indexes := [''notes'' \<mapsto> [''fox'' \<mapsto> [1], ''red'' \<mapsto> [1, 2]]]\<rparr>"

text \<open>A token as the tokeniser returns it: a non-empty run of word characters in lower case.\<close>

definition is_token :: "string \<Rightarrow> bool" where
  "is_token w \<longleftrightarrow> w \<noteq> [] \<and> (\<forall>c \<in> set w. is_word_char c \<and> lower_char c = c)"

section \<open>Block pointer table\<close>

text \<open>
  What a call of a coroutine does to the state \<open>'s\<close>: it returns a value, it raises, or it
  waits for ever on a lock or a queue that nothing will release (\<open>Blocks\<close>).
\<close>

datatype ('a, 's) outcome = Returns 'a 's | Raises exn 's | Blocks 's

text \<open>
  Python list indexing: \<open>py_index xs i\<close> is the position that \<^verbatim>\<open>xs[i]\<close> reads, negative
  indices counting from the end, and \<open>None\<close> where Python raises \<^verbatim>\<open>IndexError\<close>.
\<close>

definition py_index :: "'a list \<Rightarrow> int \<Rightarrow> nat option" where
  "py_index xs i =
     (let n = int (length xs)
      in if 0 \<le> i \<and> i < n then Some (nat i)
         else if - n \<le> i \<and> i < 0 then Some (nat (n + i))
         else None)"

text \<open>
  \<^verbatim>\<open>BlockPointerTable\<close>: the direct pointer lists, the lists of indirect entry ids, and the
  \<^verbatim>\<open>asyncio.Lock\<close>, which is either held or free. An \<^verbatim>\<open>asyncio.Lock\<close> is not reentrant:
  \<^verbatim>\<open>async with self.lock\<close> waits while the lock is held, also when the holder is the
  waiting coroutine itself.
\<close>

record block_pointer_table =
  entries :: "(int \<times> int) list list"
  indirect_entries :: "int list list"
  lock :: bool

definition new_block_pointer_table :: block_pointer_table where
  "new_block_pointer_table = \<lparr>entries = [], indirect_entries = [], lock = False\<rparr>"

text \<open>\<^verbatim>\<open>create_entry\<close> takes the lock, appends an empty entry and returns its index.\<close>

definition create_entry :: "block_pointer_table \<Rightarrow> (int, block_pointer_table) outcome" where
  "create_entry t =
     (if lock t then Blocks t
      else Returns (int (length (entries t)))
             (t\<lparr>entries := entries t @ [[]], indirect_entries := indirect_entries t @ [[]]\<rparr>))"

text \<open>
  \<^verbatim>\<open>entry.append(p)\<close> and \<^verbatim>\<open>indirect_entry.append(new)\<close> mutate the list object stored in
  the table, here the list at that position.
\<close>

definition append_to_entry ::
    "block_pointer_table \<Rightarrow> nat \<Rightarrow> int \<times> int \<Rightarrow> block_pointer_table" where
  "append_to_entry t e p = t\<lparr>entries := (entries t)[e := entries t ! e @ [p]]\<rparr>"

definition append_indirect :: "block_pointer_table \<Rightarrow> nat \<Rightarrow> int \<Rightarrow> block_pointer_table" where
  "append_indirect t ie new =
     t\<lparr>indirect_entries := (indirect_entries t)[ie := indirect_entries t ! ie @ [new]]\<rparr>"

text \<open>
  The \<^verbatim>\<open>else\<close> branch of \<^verbatim>\<open>add_pointer\<close>, run while the lock is held. First
  \<^verbatim>\<open>if not indirect_entry: indirect_entry.append(await self.create_entry())\<close>, then the
  append to the last indirect entry, with one more \<^verbatim>\<open>create_entry\<close> when that is full.
\<close>

definition ensure_indirect :: "block_pointer_table \<Rightarrow> nat \<Rightarrow> (unit, block_pointer_table) outcome" where
  "ensure_indirect t ie =
     (if indirect_entries t ! ie = [] then
        (case create_entry t of
           Returns new t1 \<Rightarrow> Returns () (append_indirect t1 ie new)
         | Raises x s \<Rightarrow> Raises x s
         | Blocks s \<Rightarrow> Blocks s)
      else Returns () t)"

definition append_last_indirect ::
    "block_pointer_table \<Rightarrow> nat \<Rightarrow> int \<times> int \<Rightarrow> (unit, block_pointer_table) outcome" where
  "append_last_indirect t ie p =
     (case py_index (entries t) (last (indirect_entries t ! ie)) of
        None \<Rightarrow> Raises IndexError t
      | Some li \<Rightarrow>
          if length (entries t ! li) = 16 then
            (case create_entry t of
               Returns new t1 \<Rightarrow>
                 (let t2 = append_indirect t1 ie new
                  in case py_index (entries t2) new of
                       None \<Rightarrow> Raises IndexError t2
                     | Some ni \<Rightarrow> Returns () (append_to_entry t2 ni p))
             | Raises x s \<Rightarrow> Raises x s
             | Blocks s \<Rightarrow> Blocks s)
          else Returns () (append_to_entry t li p))"

text \<open>Leaving \<^verbatim>\<open>async with self.lock\<close> releases the lock, on return and on raise.\<close>

definition release :: "(unit, block_pointer_table) outcome \<Rightarrow> (unit, block_pointer_table) outcome" where
  "release r =
     (case r of
        Returns u s \<Rightarrow> Returns u (s\<lparr>lock := False\<rparr>)
      | Raises x s \<Rightarrow> Raises x (s\<lparr>lock := False\<rparr>)
      | Blocks s \<Rightarrow> Blocks s)"

text \<open>The body of \<^verbatim>\<open>add_pointer\<close> inside \<^verbatim>\<open>async with self.lock\<close>.\<close>

definition add_pointer_locked ::
    "block_pointer_table \<Rightarrow> int \<Rightarrow> int \<Rightarrow> int \<Rightarrow> (unit, block_pointer_table) outcome" where
  "add_pointer_locked t entry_id block_store_id record_location =
     (if entry_id \<ge> int (length (entries t)) then Raises ValueError t
      else case py_index (entries t) entry_id of
             None \<Rightarrow> Raises IndexError t
           | Some e \<Rightarrow>
               if length (entries t ! e) < 16
               then Returns () (append_to_entry t e (block_store_id, record_location))
               else (case py_index (indirect_entries t) entry_id of
                       None \<Rightarrow> Raises IndexError t
                     | Some ie \<Rightarrow>
                         (case ensure_indirect t ie of
                            Returns u t1 \<Rightarrow>
                              append_last_indirect t1 ie (block_store_id, record_location)
                          | Raises x s \<Rightarrow> Raises x s
                          | Blocks s \<Rightarrow> Blocks s)))"

definition add_pointer ::
    "block_pointer_table \<Rightarrow> int \<Rightarrow> int \<Rightarrow> int \<Rightarrow> (unit, block_pointer_table) outcome" where
  "add_pointer t entry_id block_store_id record_location =
     (if lock t then Blocks t
      else release (add_pointer_locked (t\<lparr>lock := True\<rparr>) entry_id block_store_id
                      record_location))"

text \<open>\<^verbatim>\<open>get_pointers\<close>: the direct list, extended by the entry of each indirect id in order.\<close>

fun extend_indirect ::
    "(int \<times> int) list list \<Rightarrow> (int \<times> int) list \<Rightarrow> int list \<Rightarrow> exn + (int \<times> int) list" where
  "extend_indirect es result [] = Inr result"
| "extend_indirect es result (indirect_id # rest) =
     (case py_index es indirect_id of
        None \<Rightarrow> Inl IndexError
      | Some i \<Rightarrow> extend_indirect es (result @ es ! i) rest)"

definition get_pointers ::
    "block_pointer_table \<Rightarrow> int \<Rightarrow> ((int \<times> int) list, block_pointer_table) outcome" where
  "get_pointers t entry_id =
     (if lock t then Blocks t
      else if entry_id \<ge> int (length (entries t)) then Raises ValueError t
      else case (py_index (entries t) entry_id, py_index (indirect_entries t) entry_id) of
             (Some e, Some ie) \<Rightarrow>
               (case extend_indirect (entries t) (entries t ! e) (indirect_entries t ! ie) of
                  Inl x \<Rightarrow> Raises x t
                | Inr result \<Rightarrow> Returns result t)
           | _ \<Rightarrow> Raises IndexError t)"

text \<open>A caller that awaits \<^verbatim>\<open>add_pointer\<close> for each pointer of a list, in order.\<close>

fun add_pointers ::
    "block_pointer_table \<Rightarrow> int \<Rightarrow> (int \<times> int) list \<Rightarrow> (unit, block_pointer_table) outcome" where
  "add_pointers t entry_id [] = Returns () t"
| "add_pointers t entry_id (p # ps) =
     (case add_pointer t entry_id (fst p) (snd p) of
        Returns u t' \<Rightarrow> add_pointers t' entry_id ps
      | Raises x s \<Rightarrow> Raises x s
      | Blocks s \<Rightarrow> Blocks s)"

text \<open>
  The table states between calls: the empty table of the constructor, and the state after
  every call of \<^verbatim>\<open>create_entry\<close> or \<^verbatim>\<open>add_pointer\<close> that returned or raised.
\<close>

inductive table_reachable :: "block_pointer_table \<Rightarrow> bool" where
  table_new: "table_reachable new_block_pointer_table"
| table_create: "table_reachable t \<Longrightarrow> create_entry t = Returns i t' \<Longrightarrow> table_reachable t'"
| table_add:
    "table_reachable t \<Longrightarrow> add_pointer t entry_id s l = Returns u t' \<Longrightarrow> table_reachable t'"
| table_add_raise:
    "table_reachable t \<Longrightarrow> add_pointer t entry_id s l = Raises x t' \<Longrightarrow> table_reachable t'"

text \<open>The invariant of these states.\<close>

definition table_inv :: "block_pointer_table \<Rightarrow> bool" where
  "table_inv t \<longleftrightarrow>
     \<not> lock t \<and> length (indirect_entries t) = length (entries t)
     \<and> (\<forall>l \<in> set (indirect_entries t). l = [])
     \<and> (\<forall>l \<in> set (entries t). length l \<le> 16)"

text \<open>
  Example data: the pointers \<open>(0, 0)\<close>, \<open>(0, 1)\<close>, ... to consecutive slots of store 0; the table
  with one entry that holds the first sixteen; and a table in which entry 0 is full and
  already has the indirect entry 1, as the code means to build it.
\<close>

definition slot_pointers :: "nat \<Rightarrow> (int \<times> int) list" where
  "slot_pointers n = map (\<lambda>i. (0, int i)) [0..<n]"

definition table_created :: block_pointer_table where
  "table_created = \<lparr>entries = [[]], indirect_entries = [[]], lock = False\<rparr>"

definition table_sixteen :: block_pointer_table where
  "table_sixteen = \<lparr>entries = [slot_pointers 16], indirect_entries = [[]], lock = False\<rparr>"

definition table_prepared :: block_pointer_table where
  "table_prepared =
     \<lparr>entries = [slot_pointers 16, [(0, 16)]], indirect_entries = [[1], []], lock = False\<rparr>"

section \<open>Document store\<close>

text \<open>
  The values a document holds: JSON values, and \<^verbatim>\<open>bytes\<close> for a compressed \<^verbatim>\<open>data\<close> field.
  A document is a Python dict from field name to value.
\<close>

datatype json =
    JNull
  | JBool bool
  | JInt int
  | JString string
  | JBytes "nat list"
  | JList "json list"
  | JObject "(string \<times> json) list"

type_synonym document = "string \<rightharpoonup> json"

text \<open>Python's truth value of a field, as \<^verbatim>\<open>if document.get('compressed')\<close> tests it.\<close>

fun truthy :: "json \<Rightarrow> bool" where
  "truthy JNull = False"
| "truthy (JBool b) = b"
| "truthy (JInt i) = (i \<noteq> 0)"
| "truthy (JString s) = (s \<noteq> [])"
| "truthy (JBytes b) = (b \<noteq> [])"
| "truthy (JList l) = (l \<noteq> [])"
| "truthy (JObject kvs) = (kvs \<noteq> [])"

text \<open>The fields that Python can compare with an \<^verbatim>\<open>int\<close>: integers, and booleans as 0 and 1.\<close>

fun as_int :: "json \<Rightarrow> int option" where
  "as_int (JInt i) = Some i"
| "as_int (JBool b) = Some (if b then 1 else 0)"
| "as_int _ = None"

text \<open>
  \<^verbatim>\<open>LRUCache\<close> of \<^verbatim>\<open>lru_cache.py\<close>: the \<^verbatim>\<open>OrderedDict\<close> is the list of its items, least
  recently used first. \<^verbatim>\<open>get\<close> moves a hit to the end; \<^verbatim>\<open>put\<close> moves or appends the key
  at the end and then drops the first item when the size exceeds the capacity;
  \<^verbatim>\<open>invalidate\<close> deletes the key.
\<close>

record lru_cache =
  capacity :: int
  cache :: "(int \<times> document) list"

definition lru_remove :: "int \<Rightarrow> (int \<times> document) list \<Rightarrow> (int \<times> document) list" where
  "lru_remove key kvs = filter (\<lambda>kv. fst kv \<noteq> key) kvs"

definition lru_get :: "lru_cache \<Rightarrow> int \<Rightarrow> document option \<times> lru_cache" where
  "lru_get c key =
     (case map_of (cache c) key of
        None \<Rightarrow> (None, c)
      | Some v \<Rightarrow> (Some v, c\<lparr>cache := lru_remove key (cache c) @ [(key, v)]\<rparr>))"

definition lru_put :: "lru_cache \<Rightarrow> int \<Rightarrow> document \<Rightarrow> lru_cache" where
  "lru_put c key v =
     (let kvs = lru_remove key (cache c) @ [(key, v)]
      in c\<lparr>cache := (if int (length kvs) > capacity c then tl kvs else kvs)\<rparr>)"

definition lru_invalidate :: "lru_cache \<Rightarrow> int \<Rightarrow> lru_cache" where
  "lru_invalidate c key = c\<lparr>cache := lru_remove key (cache c)\<rparr>"

text \<open>
  The two library functions whose results the store depends on are parameters:
  \<^verbatim>\<open>len(json.dumps(document))\<close>, which raises \<^verbatim>\<open>TypeError\<close> on a value that JSON cannot
  encode (\<open>None\<close>), and \<^verbatim>\<open>zlib.decompress(data).decode('utf-8')\<close>, which raises on bytes
  that are no compressed UTF-8 text (\<open>None\<close>).
\<close>

record py_lib =
  json_dumps_len :: "document \<Rightarrow> nat option"
  zlib_decompress :: "nat list \<Rightarrow> string option"

text \<open>
  \<^verbatim>\<open>JSONFilestore\<close> of \<^verbatim>\<open>json_filestore.py\<close>: the dict \<^verbatim>\<open>data\<close>, the LRU cache
  (\<^verbatim>\<open>self.cache\<close>, here \<open>store_cache\<close>), \<^verbatim>\<open>next_id\<close>, the queue of documents waiting for
  compression, and \<^verbatim>\<open>self.locks\<close>, which the constructor sets to the plain dict \<^verbatim>\<open>{}\<close> and
  which no method writes. The clock readings \<^verbatim>\<open>int(time.time())\<close> are arguments. \<^verbatim>\<open>data\<close> and
  the cache hold the same dict object for a document, and every mutation below reaches
  both.

  The constructor itself does not return: it calls \<^verbatim>\<open>IndexManager()\<close> without the \<^verbatim>\<open>config\<close>
  argument that \<^verbatim>\<open>IndexManager.__init__\<close> requires. So there is no constructor in this model,
  and the states below are records given field by field, the states an object of the class
  has once its fields are set. The background task \<^verbatim>\<open>process_compression_queue\<close> takes
  documents from the queue and writes them back into \<^verbatim>\<open>data\<close>; only the bodies of the methods
  put documents there, and it is not modelled.
\<close>

record json_filestore =
  data :: "int \<rightharpoonup> document"
  store_cache :: lru_cache
  next_id :: int
  compression_queue :: "(int \<times> document) list"
  locks :: "int \<rightharpoonup> nat"

text \<open>
  \<^verbatim>\<open>if len(json.dumps(document)) > 4 * 1024: await self.compression_queue.put(...)\<close>; the
  queue is unbounded. An exception here is re-raised as \<^verbatim>\<open>StorageException\<close> by the caller's
  \<^verbatim>\<open>except Exception\<close>, after the document has been stored.
\<close>

definition queue_if_large ::
    "py_lib \<Rightarrow> json_filestore \<Rightarrow> int \<Rightarrow> document \<Rightarrow> exn + json_filestore" where
  "queue_if_large lib s doc_id document =
     (case json_dumps_len lib document of
        None \<Rightarrow> Inl StorageException
      | Some n \<Rightarrow>
          Inr (if n > 4 * 1024
               then s\<lparr>compression_queue := compression_queue s @ [(doc_id, document)]\<rparr>
               else s))"

text \<open>
  The bodies of the methods, as they stand under the decorators.
  \<^verbatim>\<open>_create_with_id\<close> stamps \<^verbatim>\<open>id\<close>, \<^verbatim>\<open>created_at\<close> and \<^verbatim>\<open>updated_at\<close> (two clock readings),
  stores the document and caches it. \<^verbatim>\<open>create\<close> takes the id from \<^verbatim>\<open>next_id\<close>;
  \<^verbatim>\<open>create_with_id\<close> refuses an id in use and moves \<^verbatim>\<open>next_id\<close> past the given id.
\<close>

definition create_with_id_helper ::
    "py_lib \<Rightarrow> json_filestore \<Rightarrow> int \<Rightarrow> document \<Rightarrow> int \<Rightarrow> int \<Rightarrow> (exn + int) \<times> json_filestore" where
  "create_with_id_helper lib s doc_id document now1 now2 =
     (let document' = document(''id'' \<mapsto> JInt doc_id, ''created_at'' \<mapsto> JInt now1,
                               ''updated_at'' \<mapsto> JInt now2);
          s1 = s\<lparr>data := (data s)(doc_id \<mapsto> document'),
                 store_cache := lru_put (store_cache s) doc_id document'\<rparr>
      in case queue_if_large lib s1 doc_id document' of
           Inl e \<Rightarrow> (Inl StorageException, s1)
         | Inr s2 \<Rightarrow> (Inr doc_id, s2))"

definition create_body ::
    "py_lib \<Rightarrow> json_filestore \<Rightarrow> document \<Rightarrow> int \<Rightarrow> int \<Rightarrow> (exn + int) \<times> json_filestore" where
  "create_body lib s document now1 now2 =
     create_with_id_helper lib (s\<lparr>next_id := next_id s + 1\<rparr>) (next_id s) document now1 now2"

definition create_with_id_body ::
    "py_lib \<Rightarrow> json_filestore \<Rightarrow> int \<Rightarrow> document \<Rightarrow> int \<Rightarrow> int \<Rightarrow> (exn + int) \<times> json_filestore" where
  "create_with_id_body lib s doc_id document now1 now2 =
     (if doc_id \<in> dom (data s) then (Inl DocumentAlreadyExistsError, s)
      else create_with_id_helper lib
             (if doc_id \<ge> next_id s then s\<lparr>next_id := doc_id + 1\<rparr> else s)
             doc_id document now1 now2)"

text \<open>
  \<^verbatim>\<open>read\<close>: a cache hit returns the cached document. Otherwise the stored document is
  looked up, decompressed in place when its \<^verbatim>\<open>compressed\<close> field is true (a missing or
  non-bytes \<^verbatim>\<open>data\<close> field raises, re-raised as \<^verbatim>\<open>StorageException\<close>), cached and returned.
\<close>

definition decompress_data :: "py_lib \<Rightarrow> json option \<Rightarrow> exn + string" where
  "decompress_data lib d =
     (case d of
        Some (JBytes b) \<Rightarrow>
          (case zlib_decompress lib b of None \<Rightarrow> Inl StorageException | Some s \<Rightarrow> Inr s)
      | _ \<Rightarrow> Inl StorageException)"

definition read_body :: "py_lib \<Rightarrow> json_filestore \<Rightarrow> int \<Rightarrow> (exn + document) \<times> json_filestore" where
  "read_body lib s doc_id =
     (case lru_get (store_cache s) doc_id of
        (Some document, c) \<Rightarrow> (Inr document, s\<lparr>store_cache := c\<rparr>)
      | (None, c) \<Rightarrow>
          (case data s doc_id of
             None \<Rightarrow> (Inl DocumentNotFoundError, s)
           | Some document \<Rightarrow>
               if truthy (dict_get document ''compressed'' JNull) then
                 (case decompress_data lib (document ''data'') of
                    Inl e \<Rightarrow> (Inl StorageException, s)
                  | Inr text \<Rightarrow>
                      (let document' = document(''data'' \<mapsto> JString text,
                                                ''compressed'' \<mapsto> JBool False)
                       in (Inr document',
                           s\<lparr>data := (data s)(doc_id \<mapsto> document'),
                             store_cache := lru_put (store_cache s) doc_id document'\<rparr>)))
               else (Inr document,
                     s\<lparr>store_cache := lru_put (store_cache s) doc_id document\<rparr>)))"

text \<open>
  \<^verbatim>\<open>update\<close>: \<^verbatim>\<open>document.update(updates)\<close>, then \<^verbatim>\<open>document['updated_at'] = int(time.time())\<close>,
  then the cache and the compression check.
\<close>

definition update_body ::
    "py_lib \<Rightarrow> json_filestore \<Rightarrow> int \<Rightarrow> document \<Rightarrow> int \<Rightarrow> (exn + bool) \<times> json_filestore" where
  "update_body lib s doc_id updates now =
     (case data s doc_id of
        None \<Rightarrow> (Inl DocumentNotFoundError, s)
      | Some document \<Rightarrow>
          (let document' = (document ++ updates)(''updated_at'' \<mapsto> JInt now);
               s1 = s\<lparr>data := (data s)(doc_id \<mapsto> document'),
                      store_cache := lru_put (store_cache s) doc_id document'\<rparr>
           in case queue_if_large lib s1 doc_id document' of
                Inl e \<Rightarrow> (Inl StorageException, s1)
              | Inr s2 \<Rightarrow> (Inr True, s2)))"

text \<open>\<^verbatim>\<open>delete\<close>: \<^verbatim>\<open>del self.data[doc_id]\<close> and \<^verbatim>\<open>self.cache.invalidate(doc_id)\<close>.\<close>

definition delete_body :: "json_filestore \<Rightarrow> int \<Rightarrow> (exn + bool) \<times> json_filestore" where
  "delete_body s doc_id =
     (if doc_id \<notin> dom (data s) then (Inl DocumentNotFoundError, s)
      else (Inr True,
            s\<lparr>data := (data s)(doc_id := None),
              store_cache := lru_invalidate (store_cache s) doc_id\<rparr>))"

text \<open>
  The decorators \<^verbatim>\<open>reader_lock\<close> and \<^verbatim>\<open>writer_lock\<close> of \<^verbatim>\<open>reader_writer_lock.py\<close> wrap the five
  public methods. Each wrapper starts with
  \<^verbatim>\<open>async with AsyncLock(await self.locks.get(args[0], create=True))\<close>. \<^verbatim>\<open>self.locks\<close> is a
  plain dict, and \<^verbatim>\<open>dict.get\<close> takes no keyword arguments: the call raises \<^verbatim>\<open>TypeError\<close>,
  whatever the dict holds and whatever the key is. This happens before any lock is taken
  and before the wrapped body runs, and outside the \<^verbatim>\<open>try\<close> blocks of the bodies: the
  \<^verbatim>\<open>TypeError\<close> leaves the method as it is, and the store is unchanged. The rest of the
  wrapper, which takes the reader-writer lock around the body, is never reached; the
  definitions below keep the call of the body in its place.
\<close>

definition dict_get_keyword :: "('k \<rightharpoonup> 'v) \<Rightarrow> 'j \<Rightarrow> exn + 'v" where
  "dict_get_keyword d key = Inl TypeError"

definition reader_lock ::
    "json_filestore \<Rightarrow> 'j \<Rightarrow> (json_filestore \<Rightarrow> (exn + 'a) \<times> json_filestore)
      \<Rightarrow> (exn + 'a) \<times> json_filestore" where
  "reader_lock s key body =
     (case dict_get_keyword (locks s) key of
        Inl e \<Rightarrow> (Inl e, s)
      | Inr key_lock \<Rightarrow> body s)"

definition writer_lock ::
    "json_filestore \<Rightarrow> 'j \<Rightarrow> (json_filestore \<Rightarrow> (exn + 'a) \<times> json_filestore)
      \<Rightarrow> (exn + 'a) \<times> json_filestore" where
  "writer_lock s key body =
     (case dict_get_keyword (locks s) key of
        Inl e \<Rightarrow> (Inl e, s)
      | Inr key_lock \<Rightarrow> body s)"

text \<open>The five methods as the class has them: the bodies under their decorators.\<close>

definition create ::
    "py_lib \<Rightarrow> json_filestore \<Rightarrow> document \<Rightarrow> int \<Rightarrow> int \<Rightarrow> (exn + int) \<times> json_filestore" where
  "create lib s document now1 now2 =
     writer_lock s document (\<lambda>s'. create_body lib s' document now1 now2)"

definition create_with_id ::
    "py_lib \<Rightarrow> json_filestore \<Rightarrow> int \<Rightarrow> document \<Rightarrow> int \<Rightarrow> int \<Rightarrow> (exn + int) \<times> json_filestore" where
  "create_with_id lib s doc_id document now1 now2 =
     writer_lock s doc_id (\<lambda>s'. create_with_id_body lib s' doc_id document now1 now2)"

definition read :: "py_lib \<Rightarrow> json_filestore \<Rightarrow> int \<Rightarrow> (exn + document) \<times> json_filestore" where
  "read lib s doc_id = reader_lock s doc_id (\<lambda>s'. read_body lib s' doc_id)"

definition update ::
    "py_lib \<Rightarrow> json_filestore \<Rightarrow> int \<Rightarrow> document \<Rightarrow> int \<Rightarrow> (exn + bool) \<times> json_filestore" where
  "update lib s doc_id updates now =
     writer_lock s doc_id (\<lambda>s'. update_body lib s' doc_id updates now)"

definition delete :: "json_filestore \<Rightarrow> int \<Rightarrow> (exn + bool) \<times> json_filestore" where
  "delete s doc_id = writer_lock s doc_id (\<lambda>s'. delete_body s' doc_id)"


section \<open>Facade: reading a document\<close>

text \<open>
  \<^verbatim>\<open>BlockStore\<close>: block size, the bytes of the backing file and the free list.
  \<^verbatim>\<open>EnhancedFilestore\<close>: the document store, the pointer table and the three block stores.
\<close>

record block_store =
  block_size :: nat
  file_bytes :: "nat list"
  free_blocks :: "int list"

record enhanced_filestore =
  document_store :: json_filestore
  pointer_table :: block_pointer_table
  small_block_store :: block_store
  medium_block_store :: block_store
  large_block_store :: block_store

text \<open>
  What \<^verbatim>\<open>_read_block\<close> can hand back. \<^verbatim>\<open>BlockStore.read_block\<close> is declared \<^verbatim>\<open>async def\<close>, so
  calling it creates a coroutine object and runs none of its body. \<^verbatim>\<open>_read_block\<close> passes
  it to \<^verbatim>\<open>asyncio.to_thread\<close>, which calls it in a worker thread and returns what the call
  returned: the coroutine object, never awaited. (\<^verbatim>\<open>BlockStore.read_block\<close> itself passes
  the plain function \<^verbatim>\<open>_read_block_sync\<close> to \<^verbatim>\<open>asyncio.to_thread\<close>.)
\<close>

datatype pyobj = Bytes "nat list" | Coroutine

definition select_block_store :: "enhanced_filestore \<Rightarrow> int \<Rightarrow> block_store \<times> int" where
  "select_block_store fs doc_size =
     (if doc_size \<le> 4 * 1024 then (small_block_store fs, 0)
      else if doc_size \<le> 64 * 1024 then (medium_block_store fs, 1)
      else (large_block_store fs, 2))"

definition block_store_read_block :: "block_store \<Rightarrow> int \<Rightarrow> pyobj" where
  "block_store_read_block store block_id = Coroutine"

definition read_block :: "block_store \<Rightarrow> int \<Rightarrow> exn + pyobj" where
  "read_block store block = Inr (block_store_read_block store block)"

text \<open>\<^verbatim>\<open>data += obj\<close> on \<^verbatim>\<open>bytes\<close>: concatenation, \<^verbatim>\<open>TypeError\<close> when \<open>obj\<close> is not bytes.\<close>

definition bytes_iadd :: "nat list \<Rightarrow> pyobj \<Rightarrow> exn + nat list" where
  "bytes_iadd bs obj = (case obj of Bytes extra \<Rightarrow> Inr (bs @ extra) | Coroutine \<Rightarrow> Inl TypeError)"

text \<open>The loop \<^verbatim>\<open>for _, block in pointers: data += await self._read_block(block_store, block)\<close>.\<close>

fun read_blocks :: "block_store \<Rightarrow> nat list \<Rightarrow> (int \<times> int) list \<Rightarrow> exn + nat list" where
  "read_blocks store bs [] = Inr bs"
| "read_blocks store bs (pointer # pointers) =
     (case read_block store (snd pointer) of
        Inl e \<Rightarrow> Inl e
      | Inr obj \<Rightarrow>
          (case bytes_iadd bs obj of
             Inl e \<Rightarrow> Inl e
           | Inr bs' \<Rightarrow> read_blocks store bs' pointers))"

text \<open>
  \<^verbatim>\<open>json.loads(data.decode('utf-8'))\<close>: the decoder is a parameter, except that the empty
  text is no JSON document. Every failure is re-raised as \<^verbatim>\<open>StorageException\<close>.
\<close>

definition json_loads :: "(nat list \<Rightarrow> json option) \<Rightarrow> nat list \<Rightarrow> exn + json" where
  "json_loads decode bs =
     (if bs = [] then Inl StorageException
      else case decode bs of None \<Rightarrow> Inl StorageException | Some v \<Rightarrow> Inr v)"

text \<open>
  \<^verbatim>\<open>get_document\<close>: read the metadata; not-found is passed on, every other exception leaves
  as \<^verbatim>\<open>StorageException\<close>. Then the block store is selected by \<^verbatim>\<open>doc_metadata["size"]\<close>, the
  pointers are fetched, the blocks are read and the bytes are decoded.
\<close>

definition get_document_blocks ::
    "(nat list \<Rightarrow> json option) \<Rightarrow> enhanced_filestore \<Rightarrow> document
      \<Rightarrow> (json, enhanced_filestore) outcome" where
  "get_document_blocks decode fs doc_metadata =
     (case Option.bind (doc_metadata ''size'') as_int of
        None \<Rightarrow> Raises StorageException fs
      | Some doc_size \<Rightarrow>
          (case Option.bind (doc_metadata ''block_pointer'') as_int of
             None \<Rightarrow> Raises StorageException fs
           | Some entry_id \<Rightarrow>
               (case get_pointers (pointer_table fs) entry_id of
                  Blocks t \<Rightarrow> Blocks fs
                | Raises e t \<Rightarrow> Raises StorageException fs
                | Returns pointers t \<Rightarrow>
                    (case read_blocks (fst (select_block_store fs doc_size)) [] pointers of
                       Inl e \<Rightarrow> Raises StorageException fs
                     | Inr bs \<Rightarrow>
                         (case json_loads decode bs of
                            Inl e \<Rightarrow> Raises StorageException fs
                          | Inr v \<Rightarrow> Returns v fs)))))"

definition get_document ::
    "py_lib \<Rightarrow> (nat list \<Rightarrow> json option) \<Rightarrow> enhanced_filestore \<Rightarrow> int
      \<Rightarrow> (json, enhanced_filestore) outcome" where
  "get_document lib decode fs doc_id =
     (case read lib (document_store fs) doc_id of
        (Inl e, ds) \<Rightarrow>
          Raises (if e = DocumentNotFoundError then DocumentNotFoundError else StorageException)
            (fs\<lparr>document_store := ds\<rparr>)
      | (Inr doc_metadata, ds) \<Rightarrow>
          if doc_metadata = Map.empty
          then Raises DocumentNotFoundError (fs\<lparr>document_store := ds\<rparr>)
          else get_document_blocks decode (fs\<lparr>document_store := ds\<rparr>) doc_metadata)"

text \<open>The value of a field of a stored document, and the exception of an outcome.\<close>

definition stored_field :: "json_filestore \<Rightarrow> int \<Rightarrow> string \<Rightarrow> json option" where
  "stored_field s doc_id k = Option.bind (data s doc_id) (\<lambda>document. document k)"

fun raised :: "('a, 's) outcome \<Rightarrow> exn option" where
  "raised (Raises e s) = Some e"
| "raised _ = None"

text \<open>
  Example data. A store that holds one document, stamped at time 100, in \<^verbatim>\<open>data\<close> and in the
  cache, and the same store without it. A filestore as \<^verbatim>\<open>add_document\<close> is specified to leave
  it for the payload \<^verbatim>\<open>{"name": "A"}\<close>: a metadata document with size and pointer-table
  entry, one pointer to slot 0 of the small store, and the payload zero-padded in that slot.
\<close>

definition lib0 :: py_lib where
  "lib0 = \<lparr>json_dumps_len = (\<lambda>document. Some 64), zlib_decompress = (\<lambda>bs. None)\<rparr>"

definition decode0 :: "nat list \<Rightarrow> json option" where
  "decode0 bs = Some (JObject [])"

definition doc_a :: document where
  "doc_a = [''name'' \<mapsto> JString ''A'']"

definition stamped :: "document \<Rightarrow> int \<Rightarrow> int \<Rightarrow> document" where
  "stamped document doc_id now =
     document(''id'' \<mapsto> JInt doc_id, ''created_at'' \<mapsto> JInt now, ''updated_at'' \<mapsto> JInt now)"

definition store_with :: "int \<Rightarrow> document \<Rightarrow> json_filestore" where
  "store_with cache_capacity document =
     \<lparr>data = [1 \<mapsto> stamped document 1 100],
      store_cache = \<lparr>capacity = cache_capacity, cache = [(1, stamped document 1 100)]\<rparr>,
      next_id = 2, compression_queue = [], locks = Map.empty\<rparr>"

definition store_one :: json_filestore where
  "store_one = store_with 10 doc_a"

definition store_none :: json_filestore where
  "store_none =
     \<lparr>data = Map.empty, store_cache = \<lparr>capacity = 10, cache = []\<rparr>,
      next_id = 2, compression_queue = [], locks = Map.empty\<rparr>"

definition metadata_a :: document where
  "metadata_a = [''collection_id'' \<mapsto> JInt 1, ''size'' \<mapsto> JInt 13, ''block_pointer'' \<mapsto> JInt 0]"

definition payload_a :: "nat list" where
  "payload_a = map of_char ''{\"name\": \"A\"}''"

definition filestore_one :: enhanced_filestore where
  "filestore_one =
     \<lparr>document_store = store_with 1000 metadata_a,
      pointer_table = \<lparr>entries = [[(0, 0)]], indirect_entries = [[]], lock = False\<rparr>,
      small_block_store =
        \<lparr>block_size = 4096, file_bytes = payload_a @ replicate (4096 - 13) 0,
         free_blocks = []\<rparr>,
      medium_block_store = \<lparr>block_size = 65536, file_bytes = [], free_blocks = []\<rparr>,
      large_block_store = \<lparr>block_size = 1048576, file_bytes = [], free_blocks = []\<rparr>\<rparr>"


section \<open>Transactions\<close>

text \<open>
  \<^verbatim>\<open>transaction.py\<close>. An operation or rollback operation is a callable on the state it
  closes over: it leaves a state and may raise. A \<^verbatim>\<open>Transaction\<close> holds its id, the
  operations, the rollback operations and the locks, each lock an \<^verbatim>\<open>asyncio.Lock\<close> named by
  a number. The manager state is the state the operations act on, the set of locks that are
  held, the dict of open transactions and the next id.
\<close>

type_synonym 's action = "'s \<Rightarrow> exn option \<times> 's"

record 's transaction =
  transaction_id :: int
  operations :: "'s action list"
  rollback_operations :: "'s action list"
  locks :: "nat list"

record 's transaction_manager =
  world :: 's
  locked :: "nat set"
  transactions :: "int \<rightharpoonup> 's transaction"
  next_transaction_id :: int

text \<open>\<^verbatim>\<open>try: ... except Exception as e: raise X(...)\<close> around a body.\<close>

definition except_raise :: "exn \<Rightarrow> exn option \<times> 'w \<Rightarrow> exn option \<times> 'w" where
  "except_raise wrapped r = (case r of (Some e, w) \<Rightarrow> (Some wrapped, w) | (None, w) \<Rightarrow> (None, w))"

text \<open>
  \<^verbatim>\<open>start_transaction\<close> registers a new transaction. \<^verbatim>\<open>add_operation\<close> appends the operation,
  the rollback operation and the lock, then acquires the lock, waiting while it is held.
\<close>

definition start_transaction :: "'s transaction_manager \<Rightarrow> 's transaction \<times> 's transaction_manager" where
  "start_transaction m =
     (let t = \<lparr>transaction_id = next_transaction_id m, operations = [],
               rollback_operations = [], locks = []\<rparr>
      in (t, m\<lparr>next_transaction_id := next_transaction_id m + 1,
               transactions := (transactions m)(next_transaction_id m \<mapsto> t)\<rparr>))"

definition add_operation ::
    "'s transaction_manager \<Rightarrow> 's transaction \<Rightarrow> 's action \<Rightarrow> 's action \<Rightarrow> nat
      \<Rightarrow> (unit, 's transaction \<times> 's transaction_manager) outcome" where
  "add_operation m t operation rollback_operation lock_id =
     (let t' = t\<lparr>operations := operations t @ [operation],
                 rollback_operations := rollback_operations t @ [rollback_operation],
                 locks := locks t @ [lock_id]\<rparr>;
          m' = (if transaction_id t \<in> dom (transactions m)
                then m\<lparr>transactions := (transactions m)(transaction_id t \<mapsto> t')\<rparr> else m)
      in if lock_id \<in> locked m then Blocks (t', m')
         else Returns () (t', m'\<lparr>locked := insert lock_id (locked m)\<rparr>))"

text \<open>
  \<^verbatim>\<open>Transaction.execute\<close> runs the operations in order and turns the first exception into
  \<^verbatim>\<open>TransactionAbortedError\<close>. \<^verbatim>\<open>Transaction.rollback\<close> runs every rollback operation, last
  first, and only logs their exceptions. \<^verbatim>\<open>release_locks\<close> releases each lock;
  \<^verbatim>\<open>asyncio.Lock.release\<close> raises \<^verbatim>\<open>RuntimeError\<close> on a lock that is not held.
\<close>

fun execute :: "'s action list \<Rightarrow> 's \<Rightarrow> exn option \<times> 's" where
  "execute [] s = (None, s)"
| "execute (operation # rest) s =
     (case operation s of
        (Some e, s') \<Rightarrow> (Some TransactionAbortedError, s')
      | (None, s') \<Rightarrow> execute rest s')"

definition rollback :: "'s transaction \<Rightarrow> 's \<Rightarrow> 's" where
  "rollback t s =
     fold (\<lambda>rollback_operation s. snd (rollback_operation s)) (rev (rollback_operations t)) s"

fun release_locks :: "nat list \<Rightarrow> nat set \<Rightarrow> exn option \<times> nat set" where
  "release_locks [] held = (None, held)"
| "release_locks (l # ls) held =
     (if l \<in> held then release_locks ls (held - {l}) else (Some RuntimeError, held))"

text \<open>
  \<^verbatim>\<open>transaction.release_locks(); del self.transactions[transaction.id]\<close>, the common part
  of \<^verbatim>\<open>_commit_transaction\<close> and \<^verbatim>\<open>_rollback_transaction\<close>, which both re-raise every
  exception as \<^verbatim>\<open>TransactionException\<close>.
\<close>

definition release_and_delete ::
    "'s transaction_manager \<Rightarrow> 's transaction \<Rightarrow> exn option \<times> 's transaction_manager" where
  "release_and_delete m t =
     (case release_locks (locks t) (locked m) of
        (Some e, held) \<Rightarrow> (Some e, m\<lparr>locked := held\<rparr>)
      | (None, held) \<Rightarrow>
          if transaction_id t \<in> dom (transactions m)
          then (None, m\<lparr>locked := held,
                         transactions := (transactions m)(transaction_id t := None)\<rparr>)
          else (Some KeyError, m\<lparr>locked := held\<rparr>))"

definition commit_transaction ::
    "'s transaction_manager \<Rightarrow> 's transaction \<Rightarrow> exn option \<times> 's transaction_manager" where
  "commit_transaction m t = except_raise TransactionException (release_and_delete m t)"

definition rollback_transaction ::
    "'s transaction_manager \<Rightarrow> 's transaction \<Rightarrow> exn option \<times> 's transaction_manager" where
  "rollback_transaction m t =
     except_raise TransactionException
       (release_and_delete (m\<lparr>world := rollback t (world m)\<rparr>) t)"

text \<open>
  \<^verbatim>\<open>_run_transaction\<close>: execute and commit; on an exception of either, roll back and raise
  \<^verbatim>\<open>TransactionAbortedError\<close> (or what the rollback raises).
\<close>

definition abort_after ::
    "exn option \<times> 's transaction_manager \<Rightarrow> 's transaction
      \<Rightarrow> exn option \<times> 's transaction_manager" where
  "abort_after r t =
     (case r of
        (None, m) \<Rightarrow> (None, m)
      | (Some e, m) \<Rightarrow>
          (case rollback_transaction m t of
             (Some e', m') \<Rightarrow> (Some e', m')
           | (None, m') \<Rightarrow> (Some TransactionAbortedError, m')))"

definition run_transaction_body ::
    "'s transaction_manager \<Rightarrow> 's transaction \<Rightarrow> exn option \<times> 's transaction_manager" where
  "run_transaction_body m t =
     abort_after
       (case execute (operations t) (world m) of
          (Some e, s') \<Rightarrow> (Some e, m\<lparr>world := s'\<rparr>)
        | (None, s') \<Rightarrow> commit_transaction (m\<lparr>world := s'\<rparr>) t)
       t"

text \<open>
  \<^verbatim>\<open>_handle_deadlock\<close>: the rollback and the \<^verbatim>\<open>raise DeadlockDetectedError\<close> are both inside
  the \<^verbatim>\<open>try\<close> whose \<^verbatim>\<open>except Exception\<close> raises \<^verbatim>\<open>TransactionException\<close>.
\<close>

definition handle_deadlock ::
    "'s transaction_manager \<Rightarrow> 's transaction \<Rightarrow> exn option \<times> 's transaction_manager" where
  "handle_deadlock m t =
     except_raise TransactionException
       (case rollback_transaction m t of
          (Some e, m') \<Rightarrow> (Some e, m')
        | (None, m') \<Rightarrow> (Some DeadlockDetectedError, m'))"

text \<open>
  \<^verbatim>\<open>run_transaction\<close> runs the body under \<^verbatim>\<open>asyncio.wait_for\<close>. The clock is an input:
  \<open>Some k\<close> says that the timeout expires while operation number \<open>k\<close> is awaited, the first
  \<open>k\<close> operations having completed; then the body is cancelled there (the cancellation is
  no \<^verbatim>\<open>Exception\<close>, so no handler of the body runs) and \<^verbatim>\<open>_handle_deadlock\<close> is called from
  the \<^verbatim>\<open>except asyncio.TimeoutError\<close> clause. Otherwise the body finishes, and an exception
  of the body is re-raised as \<^verbatim>\<open>TransactionException\<close>.
\<close>

definition timer_fires :: "'s transaction_manager \<Rightarrow> 's transaction \<Rightarrow> nat \<Rightarrow> bool" where
  "timer_fires m t k \<longleftrightarrow>
     k < length (operations t) \<and> fst (execute (take k (operations t)) (world m)) = None"

definition run_transaction ::
    "'s transaction_manager \<Rightarrow> 's transaction \<Rightarrow> nat option
      \<Rightarrow> exn option \<times> 's transaction_manager" where
  "run_transaction m t timeout =
     (case timeout of
        Some k \<Rightarrow>
          if timer_fires m t k
          then handle_deadlock
                 (m\<lparr>world := snd (execute (take k (operations t)) (world m))\<rparr>) t
          else except_raise TransactionException (run_transaction_body m t)
      | None \<Rightarrow> except_raise TransactionException (run_transaction_body m t))"

text \<open>
  Example data: a transaction on an integer state with one operation, which holds lock 0.
\<close>

definition counter_manager :: "int transaction_manager" where
  "counter_manager =
     \<lparr>world = 0, locked = {}, transactions = Map.empty, next_transaction_id = 1\<rparr>"

definition write_value :: "int \<Rightarrow> int action" where
  "write_value v s = (None, v)"

definition counter_transaction :: "int transaction" where
  "counter_transaction =
     \<lparr>transaction_id = 1, operations = [write_value 5], rollback_operations = [write_value 0],
      locks = [0]\<rparr>"

definition counter_manager_started :: "int transaction_manager" where
  "counter_manager_started =
     \<lparr>world = 0, locked = {0}, transactions = [1 \<mapsto> counter_transaction],
      next_transaction_id = 2\<rparr>"

section \<open>Index manager: the queue of asynchronous updates\<close>

text \<open>
  \<^verbatim>\<open>asyncio.Queue(maxsize)\<close>: the queue is full when \<^verbatim>\<open>maxsize\<close> is positive and reached.
  \<^verbatim>\<open>await queue.put(item)\<close> waits until a slot is free and then appends; it never raises
  \<^verbatim>\<open>QueueFull\<close> (only \<^verbatim>\<open>put_nowait\<close> does).
\<close>

record 'a async_queue =
  maxsize :: int
  pending :: "'a list"

definition queue_full :: "'a async_queue \<Rightarrow> bool" where
  "queue_full q \<longleftrightarrow> 0 < maxsize q \<and> maxsize q \<le> int (length (pending q))"

definition queue_put :: "'a async_queue \<Rightarrow> 'a \<Rightarrow> (unit, 'a async_queue) outcome" where
  "queue_put q item =
     (if queue_full q then Blocks q else Returns () (q\<lparr>pending := pending q @ [item]\<rparr>))"

text \<open>
  The queued tuples \<^verbatim>\<open>(insert_func, key, value)\<close> and \<^verbatim>\<open>(delete_func, key)\<close>, the functions
  being bound methods of a tree with state \<open>'t\<close>. The state of the two operations below is
  the manager's queue (\<open>None\<close> when asynchronous updates are off) and the tree.
\<close>

datatype ('k, 'v, 't) index_update =
    InsertUpdate "'k \<Rightarrow> 'v \<Rightarrow> 't \<Rightarrow> exn option \<times> 't" 'k 'v
  | DeleteUpdate "'k \<Rightarrow> 't \<Rightarrow> exn option \<times> 't" 'k

type_synonym ('k, 'v, 't) update_state = "('k, 'v, 't) index_update async_queue option \<times> 't"

definition new_update_queue ::
    "index_manager_config \<Rightarrow> ('k, 'v, 't) index_update async_queue option" where
  "new_update_queue cfg =
     (if enable_async_updates cfg
      then Some \<lparr>maxsize = async_update_queue_size cfg, pending = []\<rparr>
      else None)"

text \<open>
  The asynchronous branch with the two \<^verbatim>\<open>except\<close> clauses:
  \<^verbatim>\<open>except asyncio.QueueFull: raise ConcurrencyException\<close> and
  \<^verbatim>\<open>except Exception: raise IndexException\<close>.
\<close>

definition queue_update ::
    "('k, 'v, 't) update_state \<Rightarrow> ('k, 'v, 't) index_update
      \<Rightarrow> (unit, ('k, 'v, 't) update_state) outcome" where
  "queue_update st item =
     (case fst st of
        None \<Rightarrow> Raises IndexException st
      | Some q \<Rightarrow>
          (case queue_put q item of
             Blocks q' \<Rightarrow> Blocks st
           | Returns u q' \<Rightarrow> Returns () (Some q', snd st)
           | Raises e q' \<Rightarrow>
               Raises (if e = QueueFull then ConcurrencyException else IndexException) st))"

text \<open>
  \<^verbatim>\<open>_insert_or_queue\<close> and \<^verbatim>\<open>_delete_or_queue\<close>. In the synchronous branch
  \<^verbatim>\<open>await insert_func(key, value)\<close> calls the plain method, which updates the tree, and then
  awaits its result \<^verbatim>\<open>None\<close>, a \<^verbatim>\<open>TypeError\<close> that leaves as \<^verbatim>\<open>IndexException\<close>.
\<close>

definition insert_or_queue ::
    "index_manager_config \<Rightarrow> ('k, 'v, 't) update_state
      \<Rightarrow> ('k \<Rightarrow> 'v \<Rightarrow> 't \<Rightarrow> exn option \<times> 't) \<Rightarrow> 'k \<Rightarrow> 'v
      \<Rightarrow> (unit, ('k, 'v, 't) update_state) outcome" where
  "insert_or_queue cfg st insert_func key val =
     (if enable_async_updates cfg
      then queue_update st (InsertUpdate insert_func key val)
      else Raises IndexException (fst st, snd (insert_func key val (snd st))))"

definition delete_or_queue ::
    "index_manager_config \<Rightarrow> ('k, 'v, 't) update_state
      \<Rightarrow> ('k \<Rightarrow> 't \<Rightarrow> exn option \<times> 't) \<Rightarrow> 'k
      \<Rightarrow> (unit, ('k, 'v, 't) update_state) outcome" where
  "delete_or_queue cfg st delete_func key =
     (if enable_async_updates cfg
      then queue_update st (DeleteUpdate delete_func key)
      else Raises IndexException (fst st, snd (delete_func key (snd st))))"

text \<open>Example data: a queue of size 1 that holds one update of a list of pairs.\<close>

definition async_config :: index_manager_config where
  "async_config =
     \<lparr>enable_ref_indexing = False, enable_compound_indexes = False,
      enable_partial_indexes = False, enable_text_search = False,
      enable_async_updates = True, enable_usage_statistics = False,
      async_update_queue_size = 1, text_search_language = ''english''\<rparr>"

definition pairs_insert :: "int \<Rightarrow> int \<Rightarrow> (int \<times> int) list \<Rightarrow> exn option \<times> (int \<times> int) list" where
  "pairs_insert key val t = (None, t @ [(key, val)])"

definition pairs_delete :: "int \<Rightarrow> (int \<times> int) list \<Rightarrow> exn option \<times> (int \<times> int) list" where
  "pairs_delete key t = (None, filter (\<lambda>kv. fst kv \<noteq> key) t)"

definition full_state :: "(int, int, (int \<times> int) list) update_state" where
  "full_state = (Some \<lparr>maxsize = 1, pending = [InsertUpdate pairs_insert 7 1]\<rparr>, [])"

section \<open>B+ tree\<close>

text \<open>
  \<^verbatim>\<open>b_plus_tree.py\<close>. Keys and values are Python objects: integers, strings, \<^verbatim>\<open>None\<close> and
  tuples. The order comparisons of Python return a truth value on two integers, two
  strings or two tuples (which are compared at the first position where they differ, or by
  length), and raise \<^verbatim>\<open>TypeError\<close> on operands of different kinds.
\<close>

datatype pyval = PInt int | PStr string | PNone | PTuple "pyval list"

datatype cmp_op = Lt | Le | Gt | Ge

fun cmp_int :: "cmp_op \<Rightarrow> int \<Rightarrow> int \<Rightarrow> bool" where
  "cmp_int Lt a b = (a < b)"
| "cmp_int Le a b = (a \<le> b)"
| "cmp_int Gt a b = (a > b)"
| "cmp_int Ge a b = (a \<ge> b)"

fun lex_less :: "nat list \<Rightarrow> nat list \<Rightarrow> bool" where
  "lex_less [] [] = False"
| "lex_less [] (y # ys) = True"
| "lex_less (x # xs) [] = False"
| "lex_less (x # xs) (y # ys) = (x < y \<or> (x = y \<and> lex_less xs ys))"

fun cmp_str :: "cmp_op \<Rightarrow> string \<Rightarrow> string \<Rightarrow> bool" where
  "cmp_str Lt a b = lex_less (map of_char a) (map of_char b)"
| "cmp_str Le a b = (\<not> lex_less (map of_char b) (map of_char a))"
| "cmp_str Gt a b = lex_less (map of_char b) (map of_char a)"
| "cmp_str Ge a b = (\<not> lex_less (map of_char a) (map of_char b))"

fun py_compare :: "cmp_op \<Rightarrow> pyval \<Rightarrow> pyval \<Rightarrow> exn + bool"
  and py_compare_items :: "cmp_op \<Rightarrow> pyval list \<Rightarrow> pyval list \<Rightarrow> exn + bool" where
  "py_compare op (PInt a) (PInt b) = Inr (cmp_int op a b)"
| "py_compare op (PStr a) (PStr b) = Inr (cmp_str op a b)"
| "py_compare op (PTuple xs) (PTuple ys) = py_compare_items op xs ys"
| "py_compare op _ _ = Inl TypeError"
| "py_compare_items op [] [] = Inr (op = Le \<or> op = Ge)"
| "py_compare_items op [] (y # ys) = Inr (op = Lt \<or> op = Le)"
| "py_compare_items op (x # xs) [] = Inr (op = Gt \<or> op = Ge)"
| "py_compare_items op (x # xs) (y # ys) =
     (if x = y then py_compare_items op xs ys else py_compare op x y)"

text \<open>
  \<^verbatim>\<open>x[0]\<close>, and the unpacking of \<^verbatim>\<open>for key, value in leaf.keys\<close>. Python slices
  \<^verbatim>\<open>xs[a:]\<close> and \<^verbatim>\<open>xs[:b]\<close>, a negative bound counting from the end, and \<^verbatim>\<open>xs.insert(i, x)\<close>.
\<close>

fun subscript0 :: "pyval \<Rightarrow> exn + pyval" where
  "subscript0 (PTuple (x # xs)) = Inr x"
| "subscript0 (PTuple []) = Inl IndexError"
| "subscript0 (PStr (c # cs)) = Inr (PStr [c])"
| "subscript0 (PStr []) = Inl IndexError"
| "subscript0 _ = Inl TypeError"

fun unpack_pair :: "pyval \<Rightarrow> exn + pyval \<times> pyval" where
  "unpack_pair (PTuple [k, v]) = Inr (k, v)"
| "unpack_pair (PTuple xs) = Inl ValueError"
| "unpack_pair (PStr [c, d]) = Inr (PStr [c], PStr [d])"
| "unpack_pair (PStr cs) = Inl ValueError"
| "unpack_pair _ = Inl TypeError"

definition py_slice_from :: "'a list \<Rightarrow> int \<Rightarrow> 'a list" where
  "py_slice_from xs a = drop (nat (if a < 0 then int (length xs) + a else a)) xs"

definition py_slice_to :: "'a list \<Rightarrow> int \<Rightarrow> 'a list" where
  "py_slice_to xs b = take (nat (if b < 0 then int (length xs) + b else b)) xs"

definition list_insert :: "nat \<Rightarrow> 'a \<Rightarrow> 'a list \<Rightarrow> 'a list" where
  "list_insert i x xs = take i xs @ [x] @ drop i xs"

text \<open>
  The nodes are objects that refer to each other (\<^verbatim>\<open>children\<close>, \<^verbatim>\<open>next\<close>) and are mutated in
  place, so a tree is a store of nodes, a node being named by its position, together with
  the position of the root and the order. \<^verbatim>\<open>keys\<close> holds the pairs \<^verbatim>\<open>(key, value)\<close> in a leaf,
  and in an inner node whatever \<^verbatim>\<open>_split_child\<close> has moved up.
\<close>

record bplus_node =
  leaf :: bool
  keys :: "pyval list"
  children :: "nat list"
  next_leaf :: "nat option"

record bplus_tree =
  root :: nat
  order :: int
  nodes :: "bplus_node list"

definition new_node :: "bool \<Rightarrow> bplus_node" where
  "new_node is_leaf = \<lparr>leaf = is_leaf, keys = [], children = [], next_leaf = None\<rparr>"

definition new_bplus_tree :: "int \<Rightarrow> bplus_tree" where
  "new_bplus_tree m = \<lparr>root = 0, order = m, nodes = [new_node True]\<rparr>"

text \<open>
  \<^verbatim>\<open>_split_child\<close>, statement by statement: the new sibling is created,
  \<^verbatim>\<open>child.keys[order - 1]\<close> goes into the parent (for a leaf child this is the pair
  \<^verbatim>\<open>(key, value)\<close>), the new sibling takes \<^verbatim>\<open>child.keys[order:]\<close>, the child keeps
  \<^verbatim>\<open>child.keys[:order - 1]\<close>, and the children or the leaf chain are set.
\<close>

definition split_child ::
    "int \<Rightarrow> bplus_node list \<Rightarrow> nat \<Rightarrow> nat \<Rightarrow> exn option \<times> bplus_node list" where
  "split_child m h parent index =
     (if index \<ge> length (children (h ! parent)) then (Some IndexError, h)
      else
        let child = children (h ! parent) ! index;
            new_child = length h;
            h1 = h @ [new_node (leaf (h ! child))]
        in case py_index (keys (h1 ! child)) (m - 1) of
             None \<Rightarrow> (Some IndexError, h1)
           | Some mid \<Rightarrow>
               let h2 = h1[parent := (h1 ! parent)
                            \<lparr>keys := list_insert index (keys (h1 ! child) ! mid)
                                       (keys (h1 ! parent))\<rparr>];
                   h3 = h2[parent := (h2 ! parent)
                            \<lparr>children := list_insert (index + 1) new_child
                                           (children (h2 ! parent))\<rparr>];
                   h4 = h3[new_child := (h3 ! new_child)
                            \<lparr>keys := py_slice_from (keys (h3 ! child)) m\<rparr>];
                   h5 = h4[child := (h4 ! child)
                            \<lparr>keys := py_slice_to (keys (h4 ! child)) (m - 1)\<rparr>]
               in if \<not> leaf (h5 ! child) then
                    let h6 = h5[new_child := (h5 ! new_child)
                                 \<lparr>children := py_slice_from (children (h5 ! child)) m\<rparr>];
                        h7 = h6[child := (h6 ! child)
                                 \<lparr>children := py_slice_to (children (h6 ! child)) m\<rparr>]
                    in (None, h7)
                  else
                    let h6 = h5[new_child := (h5 ! new_child)
                                 \<lparr>next_leaf := next_leaf (h5 ! child)\<rparr>];
                        h7 = h6[child := (h6 ! child)\<lparr>next_leaf := Some new_child\<rparr>]
                    in (None, h7))"

text \<open>
  The leaf branch of \<^verbatim>\<open>_insert_non_full\<close>: append \<^verbatim>\<open>(None, None)\<close>, shift the pairs whose key
  is above the new key (\<^verbatim>\<open>key < node.keys[i][0]\<close>) one place up, and store the new pair.
  \<open>leaf_shift key ks (i + 1)\<close> is the loop at index \<open>i\<close>; it returns the list and the
  place \<open>i + 1\<close> where the loop ended.
\<close>

fun leaf_shift :: "pyval \<Rightarrow> pyval list \<Rightarrow> nat \<Rightarrow> exn option \<times> pyval list \<times> nat" where
  "leaf_shift key ks 0 = (None, ks, 0)"
| "leaf_shift key ks (Suc i) =
     (case subscript0 (ks ! i) of
        Inl e \<Rightarrow> (Some e, ks, Suc i)
      | Inr k \<Rightarrow>
          (case py_compare Lt key k of
             Inl e \<Rightarrow> (Some e, ks, Suc i)
           | Inr True \<Rightarrow> leaf_shift key (ks[Suc i := ks ! i]) i
           | Inr False \<Rightarrow> (None, ks, Suc i)))"

definition insert_leaf ::
    "bplus_node list \<Rightarrow> nat \<Rightarrow> pyval \<Rightarrow> pyval \<Rightarrow> exn option \<times> bplus_node list" where
  "insert_leaf h node key val =
     (case leaf_shift key (keys (h ! node) @ [PTuple [PNone, PNone]]) (length (keys (h ! node))) of
        (Some e, ks, j) \<Rightarrow> (Some e, h[node := (h ! node)\<lparr>keys := ks\<rparr>])
      | (None, ks, j) \<Rightarrow> (None, h[node := (h ! node)\<lparr>keys := ks[j := PTuple [key, val]]\<rparr>]))"

text \<open>
  The inner branch of \<^verbatim>\<open>_insert_non_full\<close>: \<^verbatim>\<open>while i >= 0 and key < node.keys[i]: i -= 1\<close>
  compares the key with the entries of the inner node themselves; then the child is split
  when it is full, and the insertion goes on in the child. The recursion is bounded by the
  fuel, \<open>None\<close> meaning that the fuel did not suffice.
\<close>

fun descend_index :: "pyval \<Rightarrow> pyval list \<Rightarrow> nat \<Rightarrow> exn + nat" where
  "descend_index key ks 0 = Inr 0"
| "descend_index key ks (Suc i) =
     (case py_compare Lt key (ks ! i) of
        Inl e \<Rightarrow> Inl e
      | Inr True \<Rightarrow> descend_index key ks i
      | Inr False \<Rightarrow> Inr (Suc i))"

fun insert_non_full ::
    "nat \<Rightarrow> int \<Rightarrow> bplus_node list \<Rightarrow> nat \<Rightarrow> pyval \<Rightarrow> pyval
      \<Rightarrow> (exn option \<times> bplus_node list) option" where
  "insert_non_full 0 m h node key val = None"
| "insert_non_full (Suc fuel) m h node key val =
     (if leaf (h ! node) then Some (insert_leaf h node key val)
      else
        case descend_index key (keys (h ! node)) (length (keys (h ! node))) of
          Inl e \<Rightarrow> Some (Some e, h)
        | Inr i \<Rightarrow>
            if i \<ge> length (children (h ! node)) then Some (Some IndexError, h)
            else if int (length (keys (h ! (children (h ! node) ! i)))) = 2 * m - 1 then
              (case split_child m h node i of
                 (Some e, h1) \<Rightarrow> Some (Some e, h1)
               | (None, h1) \<Rightarrow>
                   (case py_compare Gt key (keys (h1 ! node) ! i) of
                      Inl e \<Rightarrow> Some (Some e, h1)
                    | Inr to_right \<Rightarrow>
                        (let i' = (if to_right then i + 1 else i)
                         in if i' \<ge> length (children (h1 ! node))
                            then Some (Some IndexError, h1)
                            else insert_non_full fuel m h1 (children (h1 ! node) ! i') key val)))
            else insert_non_full fuel m h (children (h ! node) ! i) key val)"

text \<open>\<^verbatim>\<open>insert\<close>: a full root is put under a new root and split first.\<close>

definition insert_bplus ::
    "nat \<Rightarrow> bplus_tree \<Rightarrow> pyval \<Rightarrow> pyval \<Rightarrow> (exn option \<times> bplus_tree) option" where
  "insert_bplus fuel t key val =
     (if int (length (keys (nodes t ! root t))) = 2 * order t - 1 then
        (let new_root = length (nodes t);
             h1 = nodes t @ [(new_node False)\<lparr>children := [root t]\<rparr>]
         in case split_child (order t) h1 new_root 0 of
              (Some e, h2) \<Rightarrow> Some (Some e, t\<lparr>nodes := h2\<rparr>)
            | (None, h2) \<Rightarrow>
                map_option (\<lambda>(r, h3). (r, t\<lparr>root := new_root, nodes := h3\<rparr>))
                  (insert_non_full fuel (order t) h2 new_root key val))
      else
        map_option (\<lambda>(r, h1). (r, t\<lparr>nodes := h1\<rparr>))
          (insert_non_full fuel (order t) (nodes t) (root t) key val))"

text \<open>
  \<^verbatim>\<open>_find_leaf\<close> (\<^verbatim>\<open>while i < len(node.keys) and key > node.keys[i]: i += 1\<close>) and
  \<^verbatim>\<open>range_query\<close>, which scans the leaf found and then follows the leaf chain.
\<close>

fun find_index :: "pyval \<Rightarrow> pyval list \<Rightarrow> nat \<Rightarrow> exn + nat" where
  "find_index key [] i = Inr i"
| "find_index key (k # ks) i =
     (case py_compare Gt key k of
        Inl e \<Rightarrow> Inl e
      | Inr True \<Rightarrow> find_index key ks (Suc i)
      | Inr False \<Rightarrow> Inr i)"

fun find_leaf :: "nat \<Rightarrow> bplus_node list \<Rightarrow> nat \<Rightarrow> pyval \<Rightarrow> (exn + nat) option" where
  "find_leaf 0 h node key = None"
| "find_leaf (Suc fuel) h node key =
     (if leaf (h ! node) then Some (Inr node)
      else
        case find_index key (keys (h ! node)) 0 of
          Inl e \<Rightarrow> Some (Inl e)
        | Inr i \<Rightarrow>
            if i \<ge> length (children (h ! node)) then Some (Inl IndexError)
            else find_leaf fuel h (children (h ! node) ! i) key)"

fun scan_leaf ::
    "pyval \<Rightarrow> pyval \<Rightarrow> pyval list \<Rightarrow> pyval list \<Rightarrow> exn + bool \<times> pyval list" where
  "scan_leaf start_key end_key [] result = Inr (False, result)"
| "scan_leaf start_key end_key (kv # rest) result =
     (case unpack_pair kv of
        Inl e \<Rightarrow> Inl e
      | Inr (key, val) \<Rightarrow>
          (case py_compare Le start_key key of
             Inl e \<Rightarrow> Inl e
           | Inr from_start \<Rightarrow>
               (case (if from_start then py_compare Le key end_key else Inr False) of
                  Inl e \<Rightarrow> Inl e
                | Inr True \<Rightarrow> scan_leaf start_key end_key rest (result @ [PTuple [key, val]])
                | Inr False \<Rightarrow>
                    (case py_compare Gt key end_key of
                       Inl e \<Rightarrow> Inl e
                     | Inr True \<Rightarrow> Inr (True, result)
                     | Inr False \<Rightarrow> scan_leaf start_key end_key rest result))))"

fun walk_leaves ::
    "nat \<Rightarrow> bplus_node list \<Rightarrow> nat option \<Rightarrow> pyval \<Rightarrow> pyval \<Rightarrow> pyval list
      \<Rightarrow> (exn + pyval list) option" where
  "walk_leaves 0 h l start_key end_key result = None"
| "walk_leaves (Suc fuel) h None start_key end_key result = Some (Inr result)"
| "walk_leaves (Suc fuel) h (Some l) start_key end_key result =
     (case scan_leaf start_key end_key (keys (h ! l)) result of
        Inl e \<Rightarrow> Some (Inl e)
      | Inr (True, result') \<Rightarrow> Some (Inr result')
      | Inr (False, result') \<Rightarrow>
          walk_leaves fuel h (next_leaf (h ! l)) start_key end_key result')"

definition range_query ::
    "nat \<Rightarrow> bplus_tree \<Rightarrow> pyval \<Rightarrow> pyval \<Rightarrow> (exn + pyval list) option" where
  "range_query fuel t start_key end_key =
     (case find_leaf fuel (nodes t) (root t) start_key of
        None \<Rightarrow> None
      | Some (Inl e) \<Rightarrow> Some (Inl e)
      | Some (Inr l) \<Rightarrow> walk_leaves fuel (nodes t) (Some l) start_key end_key [])"

text \<open>A caller that inserts the pairs of a list in order and stops at the first exception.\<close>

fun insert_all ::
    "nat \<Rightarrow> bplus_tree \<Rightarrow> (pyval \<times> pyval) list \<Rightarrow> (exn option \<times> bplus_tree) option" where
  "insert_all fuel t [] = Some (None, t)"
| "insert_all fuel t (kv # kvs) =
     (case insert_bplus fuel t (fst kv) (snd kv) of
        None \<Rightarrow> None
      | Some (Some e, t') \<Rightarrow> Some (Some e, t')
      | Some (None, t') \<Rightarrow> insert_all fuel t' kvs)"

definition int_pairs :: "(int \<times> int) list \<Rightarrow> (pyval \<times> pyval) list" where
  "int_pairs kvs = map (\<lambda>(k, v). (PInt k, PInt v)) kvs"

text \<open>
  A pair with an integer key; the tree whose root is a single leaf; and example data: the
  order-2 tree after the keys 2, 1, 3, and after the attempt to insert the key 4.
\<close>

fun int_pair :: "pyval \<Rightarrow> bool" where
  "int_pair (PTuple [PInt k, v]) = True"
| "int_pair _ = False"

definition leaf_root :: "int \<Rightarrow> pyval list \<Rightarrow> bplus_tree" where
  "leaf_root m ks =
     \<lparr>root = 0, order = m,
      nodes = [\<lparr>leaf = True, keys = ks, children = [], next_leaf = None\<rparr>]\<rparr>"

definition tree_three :: bplus_tree where
  "tree_three =
     \<lparr>root = 0, order = 2,
      nodes = [\<lparr>leaf = True,
                keys = [PTuple [PInt 1, PInt 10], PTuple [PInt 2, PInt 20],
                        PTuple [PInt 3, PInt 30]],
                children = [], next_leaf = None\<rparr>]\<rparr>"

definition tree_split :: bplus_tree where
  "tree_split =
     \<lparr>root = 1, order = 2,
      nodes = [\<lparr>leaf = True, keys = [PTuple [PInt 1, PInt 10]], children = [],
                next_leaf = Some 2\<rparr>,
               \<lparr>leaf = False, keys = [PTuple [PInt 2, PInt 20]], children = [0, 2],
                next_leaf = None\<rparr>,
               \<lparr>leaf = True, keys = [PTuple [PInt 3, PInt 30]], children = [],
                next_leaf = None\<rparr>]\<rparr>"


section \<open>Properties of the tokeniser and of text search\<close>

lemma reachable_enabled:
  "reachable m \<Longrightarrow> text_indexes m name = Some idx \<Longrightarrow> enable_text_search (config m)"
proof (induction arbitrary: name idx rule: reachable.induct)
  case (reachable_new cfg)
  then show ?case by (simp add: new_index_manager_def)
next
  case (reachable_create m n m')
  then show ?case by (auto simp: create_text_index_def split: if_splits)
next
  case (reachable_insert m n body doc_id m')
  then show ?case
    by (auto simp: insert_text_index_def Let_def split: if_splits option.splits)
qed

lemma set_set_intersection:
  "set (set_intersection s others) = set s \<inter> (\<Inter>t \<in> set others. set t)"
  by (auto simp: set_intersection_def)

lemma distinct_set_intersection: "distinct s \<Longrightarrow> distinct (set_intersection s others)"
  by (simp add: set_intersection_def)

lemma tokenize_red_fox: "tokenize ''Red fox!'' = [''red'', ''fox'']"
  by (simp add: tokenize_def lower_def lower_char_def is_word_char_def)

lemma tokenize_red: "tokenize ''red'' = [''red'']"
  by (simp add: tokenize_def lower_def lower_char_def is_word_char_def)

lemma tokenize_punct: "tokenize ''?! ...'' = []"
  by (simp add: tokenize_def lower_def lower_char_def is_word_char_def)

lemma reachable_created: "reachable manager_created"
proof -
  have "create_text_index (new_index_manager text_config) ''notes'' = Inr manager_created"
    by (simp add: create_text_index_def new_index_manager_def text_config_def
        manager_created_def)
  with reachable_new show ?thesis by (rule reachable_create)
qed

lemma reachable_one: "reachable manager_one"
proof -
  have "insert_text_index manager_created ''notes'' ''Red fox!'' 1 = Inr manager_one"
    by (simp add: insert_text_index_def tokenize_red_fox manager_created_def manager_one_def
        append_posting_def dict_get_def new_index_manager_def)
  with reachable_created show ?thesis by (rule reachable_insert)
qed

lemma reachable_two: "reachable manager_two"
proof -
  have "insert_text_index manager_one ''notes'' ''red'' 2 = Inr manager_two"
    by (simp add: insert_text_index_def tokenize_red manager_one_def manager_two_def
        append_posting_def dict_get_def new_index_manager_def)
  with reachable_one show ?thesis by (rule reachable_insert)
qed

lemma findall_word_run:
  "\<forall>c \<in> set w. is_word_char c \<Longrightarrow> findall_word cur (w @ rest) = findall_word (cur @ w) rest"
  by (induction w arbitrary: cur) auto

lemma findall_word_nonword:
  "\<forall>c \<in> set cs. \<not> is_word_char c \<Longrightarrow> findall_word [] cs = []"
  by (induction cs) auto

lemma lower_char_word: "is_word_char (lower_char c) \<longleftrightarrow> is_word_char c"
  by (simp add: lower_char_def is_word_char_def)

lemma tokenize_no_word_char:
  "\<forall>c \<in> set query. \<not> is_word_char c \<Longrightarrow> tokenize query = []"
  by (simp add: tokenize_def lower_def findall_word_nonword lower_char_word)

lemma tokenize_empty: "tokenize [] = []"
  by (simp add: tokenize_def lower_def)

lemma lower_token: "is_token w \<Longrightarrow> lower w = w"
  by (simp add: is_token_def lower_def map_idI)

lemma tokenize_two_tokens:
  assumes "is_token a" and "is_token b"
  shows "tokenize (a @ '' '' @ b) = [a, b]"
proof -
  have sp: "\<not> is_word_char CHR '' ''" "lower_char CHR '' '' = CHR '' ''"
    by (simp_all add: is_word_char_def lower_char_def)
  have wa: "\<forall>c \<in> set a. is_word_char c" and wb: "\<forall>c \<in> set b. is_word_char c"
    using assms by (simp_all add: is_token_def)
  have ne: "a \<noteq> []" "b \<noteq> []"
    using assms by (simp_all add: is_token_def)
  have "lower (a @ '' '' @ b) = a @ '' '' @ b"
    using lower_token [OF assms(1)] lower_token [OF assms(2)] sp
    by (simp add: lower_def)
  moreover have "findall_word [] (a @ '' '' @ b) = a # findall_word [] b"
    using findall_word_run [OF wa, of "[]" "'' '' @ b"] sp ne by simp
  moreover have "findall_word [] b = [b]"
    using findall_word_run [OF wb, of "[]" "[]"] ne by simp
  ultimately show ?thesis by (simp add: tokenize_def)
qed

text \<open>
  C8: on a text index of a manager state that the code can reach, a query with the two
  tokens \<open>a\<close> and \<open>b\<close> returns a duplicate-free list of exactly the document ids that
  occur in the posting list of \<open>a\<close> and in the posting list of \<open>b\<close>; a token without
  posting list counts as the empty set, so the result is then empty.
\<close>

theorem text_search_and_semantics:
  assumes "reachable m"
    and "text_indexes m index_name = Some idx"
    and "tokenize query = [a, b]"
  shows "\<exists>r. text_search m index_name query = Inr r
           \<and> set r = set (dict_get idx a []) \<inter> set (dict_get idx b [])
           \<and> distinct r
           \<and> (idx a = None \<or> idx b = None \<longrightarrow> r = [])"
proof -
  have on: "enable_text_search (config m)"
    using assms(1,2) by (rule reachable_enabled)
  define r where
    "r = set_intersection (py_set (dict_get idx a [])) [py_set (dict_get idx b [])]"
  have run: "text_search m index_name query = Inr r"
    using on assms(2,3) by (simp add: text_search_def r_def)
  have elems: "set r = set (dict_get idx a []) \<inter> set (dict_get idx b [])"
    by (simp add: r_def set_set_intersection py_set_def)
  have nodup: "distinct r"
    by (simp add: r_def distinct_set_intersection py_set_def)
  have "set r = {}" if "idx a = None \<or> idx b = None"
    using that unfolding elems by (auto simp: dict_get_def)
  then have none: "idx a = None \<or> idx b = None \<longrightarrow> r = []"
    by simp
  show ?thesis
    using run elems nodup none by (intro exI [of _ r]) simp
qed

theorem text_search_and_semantics_witness:
  "reachable manager_two
   \<and> text_indexes manager_two ''notes'' = Some [''fox'' \<mapsto> [1], ''red'' \<mapsto> [1, 2]]
   \<and> tokenize ''Red fox!'' = [''red'', ''fox'']
   \<and> text_search manager_two ''notes'' ''Red fox!'' = Inr [1]"
proof -
  have idx: "text_indexes manager_two ''notes'' = Some [''fox'' \<mapsto> [1], ''red'' \<mapsto> [1, 2]]"
    by (simp add: manager_two_def)
  obtain r where r: "text_search manager_two ''notes'' ''Red fox!'' = Inr r"
      and elems: "set r = set (dict_get [''fox'' \<mapsto> [1], ''red'' \<mapsto> [1, 2]] ''red'' [])
                    \<inter> set (dict_get [''fox'' \<mapsto> [1], ''red'' \<mapsto> [1, 2]] ''fox'' [])"
      and nodup: "distinct r"
    using text_search_and_semantics [OF reachable_two idx tokenize_red_fox] by blast
  from elems have "set r = {1}" by (simp add: dict_get_def)
  with nodup have "r = [1]"
    by (cases r) (auto simp: subset_singleton_iff split: if_splits)
  with r idx reachable_two tokenize_red_fox show ?thesis by simp
qed

text \<open>
  C10: on an existing text index of a reachable manager state, empty or populated, a query
  whose tokenisation yields no token (the empty string, punctuation only) returns the
  empty list.
\<close>

theorem text_search_no_tokens:
  assumes "reachable m"
    and "index_name \<in> dom (text_indexes m)"
    and "tokenize query = []"
  shows "text_search m index_name query = Inr []"
proof -
  from assms(2) obtain idx where "text_indexes m index_name = Some idx" by blast
  with assms(1) have "enable_text_search (config m)" by (rule reachable_enabled)
  with assms(3) show ?thesis by (simp add: text_search_def)
qed

theorem text_search_no_tokens_witness:
  "reachable manager_two \<and> ''notes'' \<in> dom (text_indexes manager_two)
   \<and> tokenize ''?! ...'' = [] \<and> tokenize '''' = []
   \<and> text_search manager_two ''notes'' ''?! ...'' = Inr []
   \<and> text_search manager_two ''notes'' '''' = Inr []
   \<and> reachable manager_created \<and> ''notes'' \<in> dom (text_indexes manager_created)
   \<and> text_search manager_created ''notes'' ''?! ...'' = Inr []"
proof -
  have d2: "''notes'' \<in> dom (text_indexes manager_two)"
    by (simp add: manager_two_def)
  have d0: "''notes'' \<in> dom (text_indexes manager_created)"
    by (simp add: manager_created_def)
  show ?thesis
    using text_search_no_tokens [OF reachable_two d2 tokenize_punct]
      text_search_no_tokens [OF reachable_two d2 tokenize_empty]
      text_search_no_tokens [OF reachable_created d0 tokenize_punct]
      reachable_two reachable_created d2 d0 tokenize_punct tokenize_empty
    by simp
qed

section \<open>Properties of the block pointer table\<close>

lemma py_index_less: "py_index xs i = Some k \<Longrightarrow> k < length xs"
  by (auto simp: py_index_def Let_def split: if_splits)

lemma py_index_same_length:
  "length xs = length ys \<Longrightarrow> py_index xs i = py_index ys i"
  by (simp add: py_index_def)

lemma create_entry_locked: "lock t \<Longrightarrow> create_entry t = Blocks t"
  by (simp add: create_entry_def)

lemma add_pointer_inv_cases:
  assumes "table_inv t"
  shows "add_pointer t entry_id s l = Raises ValueError t \<and> entry_id \<ge> int (length (entries t))
    \<or> add_pointer t entry_id s l = Raises IndexError t \<and> py_index (entries t) entry_id = None
    \<or> (\<exists>e. py_index (entries t) entry_id = Some e \<and> length (entries t ! e) < 16
           \<and> add_pointer t entry_id s l = Returns () (append_to_entry t e (s, l)))
    \<or> (\<exists>e. py_index (entries t) entry_id = Some e \<and> length (entries t ! e) \<ge> 16
           \<and> add_pointer t entry_id s l = Blocks (t\<lparr>lock := True\<rparr>))"
proof -
  have nl: "\<not> lock t" and len: "length (indirect_entries t) = length (entries t)"
    and emp: "\<forall>l \<in> set (indirect_entries t). l = []"
    using assms by (simp_all add: table_inv_def)
  have same: "t\<lparr>lock := True, lock := False\<rparr> = t" using nl by simp
  show ?thesis
  proof (cases "entry_id \<ge> int (length (entries t))")
    case True
    then show ?thesis using nl same
      by (simp add: add_pointer_def add_pointer_locked_def release_def)
  next
    case False
    show ?thesis
    proof (cases "py_index (entries t) entry_id")
      case None
      then show ?thesis using nl same False
        by (simp add: add_pointer_def add_pointer_locked_def release_def)
    next
      case (Some e)
      then have e: "e < length (entries t)" by (rule py_index_less)
      have ie: "py_index (indirect_entries t) entry_id = Some e"
        using Some py_index_same_length [OF len] by simp
      have "indirect_entries t ! e = []" using emp e len by simp
      then show ?thesis using nl same False Some ie
        by (simp add: add_pointer_def add_pointer_locked_def release_def append_to_entry_def
            ensure_indirect_def create_entry_def)
    qed
  qed
qed


lemma table_inv_new: "table_inv new_block_pointer_table"
  by (simp add: table_inv_def new_block_pointer_table_def)

lemma create_entry_inv:
  assumes "table_inv t" and "create_entry t = Returns i t'"
  shows "table_inv t'" and "i = int (length (entries t))"
    and "entries t' = entries t @ [[]]" and "indirect_entries t' = indirect_entries t @ [[]]"
  using assms by (auto simp: table_inv_def create_entry_def split: if_splits)

lemma append_to_entry_inv:
  assumes "table_inv t" and "e < length (entries t)" and "length (entries t ! e) < 16"
  shows "table_inv (append_to_entry t e p)"
proof -
  have "length l \<le> 16" if "l \<in> set ((entries t)[e := entries t ! e @ [p]])" for l
  proof -
    from that have "l = entries t ! e @ [p] \<or> l \<in> set (entries t)"
      by (auto dest: set_update_subset_insert [THEN subsetD])
    then show ?thesis using assms by (auto simp: table_inv_def)
  qed
  then show ?thesis using assms(1) by (simp add: table_inv_def append_to_entry_def)
qed

lemma add_pointer_returns_inv:
  assumes "table_inv t" and "add_pointer t entry_id s l = Returns u t'"
  shows "table_inv t'"
  using add_pointer_inv_cases [OF assms(1), of entry_id s l] assms
  by (auto simp: append_to_entry_inv py_index_less)

lemma add_pointer_raises_inv:
  assumes "table_inv t" and "add_pointer t entry_id s l = Raises x t'"
  shows "table_inv t'"
  using add_pointer_inv_cases [OF assms(1), of entry_id s l] assms
  by auto

lemma table_reachable_inv: "table_reachable t \<Longrightarrow> table_inv t"
proof (induction rule: table_reachable.induct)
  case table_new
  show ?case by (rule table_inv_new)
next
  case (table_create t i t')
  then show ?case by (simp add: create_entry_inv(1))
next
  case (table_add t entry_id s l u t')
  then show ?case by (simp add: add_pointer_returns_inv)
next
  case (table_add_raise t entry_id s l x t')
  then show ?case by (simp add: add_pointer_raises_inv)
qed

lemma py_index_nat: "e < length xs \<Longrightarrow> py_index xs (int e) = Some e"
  by (simp add: py_index_def)

lemma add_pointers_returns:
  assumes "table_inv t" and "e < length (entries t)"
    and "add_pointers t (int e) ps = Returns u t'"
  shows "length (entries t ! e) + length ps \<le> 16
         \<and> entries t' = (entries t)[e := entries t ! e @ ps]
         \<and> indirect_entries t' = indirect_entries t \<and> table_inv t'"
  using assms
proof (induction ps arbitrary: t)
  case Nil
  then show ?case by (simp add: table_inv_def)
next
  case (Cons p ps)
  have idx: "py_index (entries t) (int e) = Some e"
    using Cons.prems(2) by (rule py_index_nat)
  from add_pointer_inv_cases [OF Cons.prems(1), of "int e" "fst p" "snd p"] idx Cons.prems(2,3)
  have room: "length (entries t ! e) < 16"
    and step: "add_pointer t (int e) (fst p) (snd p) = Returns () (append_to_entry t e p)"
    by (auto split: outcome.splits)
  let ?t1 = "append_to_entry t e p"
  have inv1: "table_inv ?t1"
    using Cons.prems(1,2) room by (rule append_to_entry_inv)
  have len1: "e < length (entries ?t1)" using Cons.prems(2) by (simp add: append_to_entry_def)
  have rest: "add_pointers ?t1 (int e) ps = Returns u t'"
    using Cons.prems(3) step by simp
  from Cons.IH [OF inv1 len1 rest] Cons.prems(2)
  show ?case by (simp add: append_to_entry_def)
qed

lemma add_pointers_room:
  assumes "table_inv t" and "e < length (entries t)"
    and "length (entries t ! e) + length ps \<le> 16"
  shows "\<exists>t'. add_pointers t (int e) ps = Returns () t'"
  using assms
proof (induction ps arbitrary: t)
  case Nil
  then show ?case by simp
next
  case (Cons p ps)
  have idx: "py_index (entries t) (int e) = Some e"
    using Cons.prems(2) by (rule py_index_nat)
  from add_pointer_inv_cases [OF Cons.prems(1), of "int e" "fst p" "snd p"] idx Cons.prems(2,3)
  have step: "add_pointer t (int e) (fst p) (snd p) = Returns () (append_to_entry t e p)"
    by auto
  let ?t1 = "append_to_entry t e p"
  have inv1: "table_inv ?t1"
    using Cons.prems(1,2,3) by (intro append_to_entry_inv) simp_all
  have len1: "e < length (entries ?t1)" using Cons.prems(2) by (simp add: append_to_entry_def)
  have room1: "length (entries ?t1 ! e) + length ps \<le> 16"
    using Cons.prems(2,3) by (simp add: append_to_entry_def)
  from Cons.IH [OF inv1 len1 room1] step show ?case by simp
qed

lemma add_pointer_full_blocks:
  assumes "table_inv t" and "e < length (entries t)" and "length (entries t ! e) = 16"
  shows "add_pointer t (int e) s l = Blocks (t\<lparr>lock := True\<rparr>)"
  using add_pointer_inv_cases [OF assms(1), of "int e" s l] py_index_nat [OF assms(2)] assms(2,3)
  by auto

lemma get_pointers_no_indirect:
  assumes "table_inv t" and "e < length (entries t)"
  shows "get_pointers t (int e) = Returns (entries t ! e) t"
proof -
  have len: "length (indirect_entries t) = length (entries t)"
    and emp: "indirect_entries t ! e = []" and nl: "\<not> lock t"
    using assms by (simp_all add: table_inv_def)
  show ?thesis
    using nl assms(2) len emp py_index_nat [OF assms(2)]
      py_index_nat [of e "indirect_entries t"]
    by (simp add: get_pointers_def)
qed

lemma add_pointers_append:
  "add_pointers t entry_id ps = Returns u t'
     \<Longrightarrow> add_pointers t entry_id (ps @ qs) = add_pointers t' entry_id qs"
  by (induction ps arbitrary: t) (auto split: outcome.splits)

text \<open>
  On an entry that \<^verbatim>\<open>create_entry\<close> returned, a sequence of \<^verbatim>\<open>add_pointer\<close> calls returns only
  while the direct list has room: at most sixteen calls return, and the seventeenth waits
  for ever, with the lock held.
\<close>

lemma returned_calls_at_most_sixteen:
  assumes "table_reachable t"
    and "create_entry t = Returns entry_id t0"
    and "add_pointers t0 entry_id ps = Returns u t'"
  shows "length ps \<le> 16 \<and> get_pointers t' entry_id = Returns ps t'"
proof -
  have inv: "table_inv t" using assms(1) by (rule table_reachable_inv)
  let ?e = "length (entries t)"
  note ce = create_entry_inv [OF inv assms(2)]
  have id: "entry_id = int ?e" by (rule ce(2))
  have e0: "?e < length (entries t0)" and empty0: "entries t0 ! ?e = []"
    by (simp_all add: ce(3))
  have run: "add_pointers t0 (int ?e) ps = Returns u t'"
    using assms(3) id by simp
  from add_pointers_returns [OF ce(1) e0 run] empty0
  have short: "length ps \<le> 16" and ent: "entries t' = (entries t0)[?e := ps]"
    and inv': "table_inv t'"
    by simp_all
  have e': "?e < length (entries t')" using e0 ent by simp
  have "get_pointers t' (int ?e) = Returns ps t'"
    using get_pointers_no_indirect [OF inv' e'] e0 ent by simp
  then show ?thesis using id short by simp
qed

lemma more_than_sixteen_blocks:
  assumes "table_reachable t"
    and "create_entry t = Returns entry_id t0"
    and "16 < length ps"
  shows "\<exists>t'. add_pointers t0 entry_id ps = Blocks t' \<and> lock t'"
proof -
  have inv: "table_inv t" using assms(1) by (rule table_reachable_inv)
  let ?e = "length (entries t)"
  note ce = create_entry_inv [OF inv assms(2)]
  have id: "entry_id = int ?e" by (rule ce(2))
  have e0: "?e < length (entries t0)" and empty0: "entries t0 ! ?e = []"
    by (simp_all add: ce(3))
  have "length (entries t0 ! ?e) + length (take 16 ps) \<le> 16" using empty0 by simp
  from add_pointers_room [OF ce(1) e0 this]
  obtain t1 where first: "add_pointers t0 (int ?e) (take 16 ps) = Returns () t1" by blast
  from add_pointers_returns [OF ce(1) e0 first] empty0
  have ent: "entries t1 = (entries t0)[?e := take 16 ps]" and inv1: "table_inv t1"
    by simp_all
  have e1: "?e < length (entries t1)" using e0 ent by simp
  have full: "length (entries t1 ! ?e) = 16" using e0 ent assms(3) by simp
  obtain p rest where rest: "drop 16 ps = p # rest"
    using assms(3) by (cases "drop 16 ps") auto
  have "add_pointers t1 (int ?e) (drop 16 ps) = Blocks (t1\<lparr>lock := True\<rparr>)"
    using add_pointer_full_blocks [OF inv1 e1 full, of "fst p" "snd p"] rest by simp
  moreover have "add_pointers t0 (int ?e) (take 16 ps @ drop 16 ps)
                   = add_pointers t1 (int ?e) (drop 16 ps)"
    using first by (rule add_pointers_append)
  ultimately show ?thesis using id by simp
qed

text \<open>
  The rest of \<^verbatim>\<open>add_pointer\<close> and \<^verbatim>\<open>get_pointers\<close> on a table that already has an indirect
  entry with room: the pointer goes to the indirect entry, and \<^verbatim>\<open>get_pointers\<close> returns the
  direct list followed by the indirect entry. No call of the code builds such a table.
\<close>

lemma slot_pointers_Suc: "slot_pointers (Suc n) = slot_pointers n @ [(0, int n)]"
  by (simp add: slot_pointers_def)

lemma length_slot_pointers: "length (slot_pointers n) = n"
  by (simp add: slot_pointers_def)

lemma indirect_path_on_prepared_table:
  "add_pointer table_prepared 0 0 17
     = Returns () (table_prepared\<lparr>entries := [slot_pointers 16, [(0, 16), (0, 17)]]\<rparr>)"
  "get_pointers table_prepared 0 = Returns (slot_pointers 16 @ [(0, 16)]) table_prepared"
  by (simp_all add: table_prepared_def add_pointer_def add_pointer_locked_def release_def
      py_index_def ensure_indirect_def append_last_indirect_def append_to_entry_def
      get_pointers_def length_slot_pointers)

lemma table_created_reachable:
  "create_entry new_block_pointer_table = Returns 0 table_created"
  by (simp add: create_entry_def new_block_pointer_table_def table_created_def)

lemma sixteen_calls_return:
  "add_pointers table_created 0 (slot_pointers 16) = Returns () table_sixteen"
proof -
  have step: "add_pointers \<lparr>entries = [slot_pointers n], indirect_entries = [[]], lock = False\<rparr>
                0 [(0, int n)]
              = Returns () \<lparr>entries = [slot_pointers (Suc n)], indirect_entries = [[]],
                             lock = False\<rparr>"
    if "n < 16" for n
    using that
    by (simp add: add_pointer_def add_pointer_locked_def release_def py_index_def
        append_to_entry_def length_slot_pointers slot_pointers_Suc)
  have "add_pointers table_created 0 (slot_pointers n)
          = Returns () \<lparr>entries = [slot_pointers n], indirect_entries = [[]], lock = False\<rparr>"
    if "n \<le> 16" for n
    using that
  proof (induction n)
    case 0
    then show ?case by (simp add: slot_pointers_def table_created_def)
  next
    case (Suc n)
    then have "add_pointers table_created 0 (slot_pointers n)
                 = Returns () \<lparr>entries = [slot_pointers n], indirect_entries = [[]],
                                lock = False\<rparr>"
      by simp
    from add_pointers_append [OF this, of "[(0, int n)]"] step [of n] Suc.prems
    show ?case by (simp add: slot_pointers_Suc)
  qed
  from this [of 16] show ?thesis by (simp add: table_sixteen_def)
qed

lemma seventeenth_call_blocks:
  "add_pointer table_sixteen 0 0 16 = Blocks (table_sixteen\<lparr>lock := True\<rparr>)"
  by (simp add: table_sixteen_def add_pointer_def add_pointer_locked_def release_def
      py_index_def ensure_indirect_def create_entry_def length_slot_pointers)

text \<open>
  C4: sixteen \<^verbatim>\<open>add_pointer\<close> calls on a new entry return and \<^verbatim>\<open>get_pointers\<close> returns the
  sixteen pointers in order, but the seventeenth call never returns: it awaits
  \<^verbatim>\<open>create_entry\<close> while it holds the lock that \<^verbatim>\<open>create_entry\<close> takes. Adding twenty pointers
  stops there, and from then on \<^verbatim>\<open>get_pointers\<close> waits for the lock too.
\<close>

theorem seventeenth_add_pointer_blocks:
  "create_entry new_block_pointer_table = Returns 0 table_created
   \<and> add_pointers table_created 0 (slot_pointers 16) = Returns () table_sixteen
   \<and> get_pointers table_sixteen 0 = Returns (slot_pointers 16) table_sixteen
   \<and> add_pointer table_sixteen 0 0 16 = Blocks (table_sixteen\<lparr>lock := True\<rparr>)
   \<and> add_pointers table_created 0 (slot_pointers 20) = Blocks (table_sixteen\<lparr>lock := True\<rparr>)
   \<and> get_pointers (table_sixteen\<lparr>lock := True\<rparr>) 0 = Blocks (table_sixteen\<lparr>lock := True\<rparr>)"
proof -
  have get: "get_pointers table_sixteen 0 = Returns (slot_pointers 16) table_sixteen"
    by (simp add: table_sixteen_def get_pointers_def py_index_def)
  have "slot_pointers 20 = slot_pointers 16 @ [(0, 16), (0, 17), (0, 18), (0, 19)]"
    by (simp add: slot_pointers_def upt_rec [of 16] upt_rec [of 17] upt_rec [of 18]
        upt_rec [of 19] upt_rec [of 20] upt_add_eq_append [of 0 16 4, simplified])
  then have twenty: "add_pointers table_created 0 (slot_pointers 20)
                       = Blocks (table_sixteen\<lparr>lock := True\<rparr>)"
    using add_pointers_append [OF sixteen_calls_return] seventeenth_call_blocks by simp
  have "get_pointers (table_sixteen\<lparr>lock := True\<rparr>) 0 = Blocks (table_sixteen\<lparr>lock := True\<rparr>)"
    by (simp add: get_pointers_def)
  then show ?thesis
    using table_created_reachable sixteen_calls_return get seventeenth_call_blocks twenty
    by simp
qed

section \<open>Properties of the document store\<close>

lemma map_of_key: "map_of kvs k = Some v \<Longrightarrow> k \<in> fst ` set kvs"
  by (metis domI dom_map_of_conv_image_fst)

lemma set_lru_remove: "fst ` set (lru_remove k kvs) = fst ` set kvs - {k}"
  by (auto simp: lru_remove_def)

lemma keys_tl: "fst ` set (tl xs) \<subseteq> fst ` set xs"
  by (cases xs) auto

lemma keys_lru_put: "fst ` set (cache (lru_put c k v)) \<subseteq> insert k (fst ` set (cache c))"
proof -
  let ?kvs = "lru_remove k (cache c) @ [(k, v)]"
  have "fst ` set ?kvs \<subseteq> insert k (fst ` set (cache c))"
    using set_lru_remove [of k "cache c"] by auto
  moreover have "fst ` set (tl ?kvs) \<subseteq> fst ` set ?kvs"
    by (rule keys_tl)
  ultimately show ?thesis
    unfolding lru_put_def Let_def by (simp del: set_append tl_append2) blast
qed

lemma keys_lru_get: "fst ` set (cache (snd (lru_get c k))) \<subseteq> fst ` set (cache c)"
proof (cases "map_of (cache c) k")
  case None
  then show ?thesis by (simp add: lru_get_def)
next
  case (Some v)
  then have "k \<in> fst ` set (cache c)" by (rule map_of_key)
  then show ?thesis
    using Some set_lru_remove [of k "cache c"] by (auto simp: lru_get_def)
qed

lemma keys_lru_invalidate: "fst ` set (cache (lru_invalidate c k)) = fst ` set (cache c) - {k}"
  by (simp add: lru_invalidate_def set_lru_remove)

lemma lru_get_miss: "k \<notin> fst ` set (cache c) \<Longrightarrow> lru_get c k = (None, c)"
  by (cases "map_of (cache c) k") (auto simp: lru_get_def dest: map_of_key)


text \<open>Every decorated method raises \<^verbatim>\<open>TypeError\<close> and leaves the store as it is.\<close>

lemma reader_lock_raises: "reader_lock s key body = (Inl TypeError, s)"
  by (simp add: reader_lock_def dict_get_keyword_def)

lemma writer_lock_raises: "writer_lock s key body = (Inl TypeError, s)"
  by (simp add: writer_lock_def dict_get_keyword_def)

lemma create_raises: "create lib s document now1 now2 = (Inl TypeError, s)"
  by (simp add: create_def writer_lock_raises)

lemma create_with_id_raises: "create_with_id lib s doc_id document now1 now2 = (Inl TypeError, s)"
  by (simp add: create_with_id_def writer_lock_raises)

lemma read_raises: "read lib s doc_id = (Inl TypeError, s)"
  by (simp add: read_def reader_lock_raises)

lemma update_raises: "update lib s doc_id updates now = (Inl TypeError, s)"
  by (simp add: update_def writer_lock_raises)

lemma delete_raises: "delete s doc_id = (Inl TypeError, s)"
  by (simp add: delete_def writer_lock_raises)

text \<open>
  What the bodies under the decorators do. The body of \<^verbatim>\<open>delete\<close> removes the document from
  \<^verbatim>\<open>data\<close> and from the cache, so that the body of \<^verbatim>\<open>read\<close> raises
  \<^verbatim>\<open>DocumentNotFoundError\<close>. The body of \<^verbatim>\<open>update\<close> overrides the fields of the update map and
  then stamps \<^verbatim>\<open>updated_at\<close> with the clock reading, in whole seconds.
\<close>

lemma delete_body_then_read_body:
  assumes "delete_body s doc_id = (Inr True, s1)"
  shows "read_body lib s1 doc_id = (Inl DocumentNotFoundError, s1)"
proof -
  have s1: "s1 = s\<lparr>data := (data s)(doc_id := None),
                   store_cache := lru_invalidate (store_cache s) doc_id\<rparr>"
    using assms by (auto simp: delete_body_def split: if_splits)
  have "doc_id \<notin> fst ` set (cache (lru_invalidate (store_cache s) doc_id))"
    by (simp add: keys_lru_invalidate)
  then have "lru_get (store_cache s1) doc_id = (None, store_cache s1)"
    unfolding s1 by (simp add: lru_get_miss)
  then show ?thesis by (simp add: read_body_def s1)
qed

lemma update_body_fields:
  assumes "update_body lib s doc_id updates now = (Inr True, s')"
    and "data s doc_id = Some old"
  shows "\<exists>new. data s' doc_id = Some new
           \<and> (\<forall>k. k \<noteq> ''updated_at''
                 \<longrightarrow> new k = (case updates k of Some v \<Rightarrow> Some v | None \<Rightarrow> old k))
           \<and> new ''updated_at'' = Some (JInt now)"
proof -
  let ?new = "(old ++ updates)(''updated_at'' \<mapsto> JInt now)"
  have "data s' doc_id = Some ?new"
    using assms
    by (auto simp: update_body_def queue_if_large_def Let_def split: option.splits if_splits)
  moreover have "?new k = (case updates k of Some v \<Rightarrow> Some v | None \<Rightarrow> old k)"
    if "k \<noteq> ''updated_at''" for k
    using that by (simp add: map_add_def split: option.splits)
  ultimately show ?thesis by (intro exI [of _ ?new]) simp
qed

lemma update_body_same_second:
  "fst (update_body lib0 store_one 1 [''x'' \<mapsto> JInt 6] 100) = Inr True
   \<and> stored_field (snd (update_body lib0 store_one 1 [''x'' \<mapsto> JInt 6] 100)) 1 ''x''
       = Some (JInt 6)
   \<and> stored_field (snd (update_body lib0 store_one 1 [''x'' \<mapsto> JInt 6] 100)) 1 ''updated_at''
       = Some (JInt 100)"
  by (simp add: update_body_def queue_if_large_def lib0_def store_one_def store_with_def
      stored_field_def Let_def)

lemma stored_fields_store_one:
  "stored_field store_one 1 ''name'' = Some (JString ''A'')"
  "stored_field store_one 1 ''x'' = None"
  "stored_field store_one 1 ''created_at'' = Some (JInt 100)"
  "stored_field store_one 1 ''updated_at'' = Some (JInt 100)"
  by (simp_all add: stored_field_def store_one_def store_with_def stamped_def doc_a_def)

text \<open>
  C5: on a store that holds document 1, \<^verbatim>\<open>update\<close> with the update map \<^verbatim>\<open>{"x": 6}\<close> does not
  succeed: it raises \<^verbatim>\<open>TypeError\<close> and leaves the document as it was, without the field
  \<^verbatim>\<open>x\<close> and with its old \<^verbatim>\<open>updated_at\<close>.
\<close>

theorem update_raises_type_error:
  "update lib0 store_one 1 [''x'' \<mapsto> JInt 6] 105 = (Inl TypeError, store_one)
   \<and> stored_field store_one 1 ''x'' = None
   \<and> stored_field store_one 1 ''updated_at'' = Some (JInt 100)"
  by (simp add: update_raises stored_fields_store_one)

text \<open>
  \<^verbatim>\<open>get_document\<close> returns on no input: the decorated \<^verbatim>\<open>read\<close> raises; and after a read of
  the metadata, with a pointer the concatenation raises, without one the text to decode
  is empty. It raises \<^verbatim>\<open>StorageException\<close> on every input. On the example filestore the body
  of \<^verbatim>\<open>read\<close> returns the metadata, and the steps of \<^verbatim>\<open>get_document\<close> after the read raise
  \<^verbatim>\<open>StorageException\<close> on it.
\<close>

lemma read_blocks_nonempty:
  "pointers \<noteq> [] \<Longrightarrow> read_blocks blocks bs pointers = Inl TypeError"
  by (cases pointers) (simp_all add: read_block_def block_store_read_block_def bytes_iadd_def)

lemma read_blocks_json_loads:
  "read_blocks blocks [] pointers = Inr bs \<Longrightarrow> json_loads decode bs = Inl StorageException"
  by (cases pointers)
    (simp_all add: json_loads_def read_block_def block_store_read_block_def bytes_iadd_def)

lemma get_document_blocks_never_returns:
  "get_document_blocks decode fs doc_metadata \<noteq> Returns v fs'"
proof
  assume "get_document_blocks decode fs doc_metadata = Returns v fs'"
  then obtain blocks pointers bs
    where "read_blocks blocks [] pointers = Inr bs" and "json_loads decode bs = Inr v"
    by (auto simp: get_document_blocks_def split: option.splits outcome.splits sum.splits)
  then show False
    using read_blocks_json_loads [of blocks pointers bs decode] by simp
qed

lemma get_document_never_returns: "get_document lib decode fs doc_id \<noteq> Returns v fs'"
  by (auto simp: get_document_def get_document_blocks_never_returns
      split: prod.splits sum.splits)

lemma get_document_raises_storage:
  "get_document lib decode fs doc_id = Raises StorageException fs"
  by (simp add: get_document_def read_raises)

lemma read_body_filestore_one:
  "fst (read_body lib0 (document_store filestore_one) 1) = Inr (stamped metadata_a 1 100)"
  by (simp add: read_body_def filestore_one_def store_with_def lru_get_def)

lemma get_document_blocks_coroutine:
  "raised (get_document_blocks decode0 filestore_one (stamped metadata_a 1 100))
     = Some StorageException"
proof -
  have "get_pointers (pointer_table filestore_one) 0
          = Returns [(0, 0)] (pointer_table filestore_one)"
    by (simp add: filestore_one_def get_pointers_def py_index_def)
  then show ?thesis
    by (simp add: get_document_blocks_def metadata_a_def stamped_def read_block_def
        block_store_read_block_def bytes_iadd_def)
qed

text \<open>
  C2: on a filestore that holds the metadata, the pointer and the zero-padded payload of a
  document, \<^verbatim>\<open>get_document\<close> raises \<^verbatim>\<open>StorageException\<close> instead of returning the document.
\<close>

theorem get_document_after_add_raises:
  "stored_field (document_store filestore_one) 1 ''block_pointer'' = Some (JInt 0)
   \<and> get_pointers (pointer_table filestore_one) 0
       = Returns [(0, 0)] (pointer_table filestore_one)
   \<and> take 13 (file_bytes (small_block_store filestore_one)) = payload_a
   \<and> raised (get_document lib0 decode0 filestore_one 1) = Some StorageException"
proof -
  have "stored_field (document_store filestore_one) 1 ''block_pointer'' = Some (JInt 0)"
    by (simp add: stored_field_def filestore_one_def store_with_def stamped_def metadata_a_def)
  moreover have "get_pointers (pointer_table filestore_one) 0
                   = Returns [(0, 0)] (pointer_table filestore_one)"
    by (simp add: filestore_one_def get_pointers_def py_index_def)
  moreover have "take 13 (file_bytes (small_block_store filestore_one)) = payload_a"
    by (simp add: filestore_one_def payload_a_def)
  moreover have "raised (get_document lib0 decode0 filestore_one 1) = Some StorageException"
    by (simp add: get_document_raises_storage)
  ultimately show ?thesis by simp
qed

text \<open>
  C6: on a store that holds document 1, \<^verbatim>\<open>delete\<close> does not return \<^verbatim>\<open>True\<close>: it raises
  \<^verbatim>\<open>TypeError\<close> and the document stays. On a store without document 1, \<^verbatim>\<open>read\<close> raises
  \<^verbatim>\<open>TypeError\<close>, and \<^verbatim>\<open>get_document\<close> raises \<^verbatim>\<open>StorageException\<close>, not
  \<^verbatim>\<open>DocumentNotFoundError\<close>.
\<close>

theorem delete_and_read_raise_type_error:
  "delete store_one 1 = (Inl TypeError, store_one)
   \<and> stored_field store_one 1 ''name'' = Some (JString ''A'')
   \<and> data store_none 1 = None
   \<and> read lib0 store_none 1 = (Inl TypeError, store_none)
   \<and> get_document lib0 decode0 (filestore_one\<lparr>document_store := store_none\<rparr>) 1
       = Raises StorageException (filestore_one\<lparr>document_store := store_none\<rparr>)"
  by (simp add: delete_raises read_raises get_document_raises_storage stored_fields_store_one
      store_none_def)

section \<open>Properties of the transaction manager\<close>

lemma except_raise_exn:
  "fst r \<noteq> None \<Longrightarrow> fst (except_raise wrapped r) = Some wrapped"
  by (cases r) (auto simp: except_raise_def)

lemma handle_deadlock_exn: "fst (handle_deadlock m t) = Some TransactionException"
  unfolding handle_deadlock_def
  by (rule except_raise_exn) (simp split: prod.splits option.splits)

lemma run_transaction_timeout_exn:
  "timer_fires m t k \<Longrightarrow> fst (run_transaction m t (Some k)) = Some TransactionException"
  by (simp add: run_transaction_def handle_deadlock_exn)

lemma run_transaction_never_deadlock_error:
  "fst (run_transaction m t timeout) \<noteq> Some DeadlockDetectedError"
proof -
  have "fst (except_raise TransactionException r) \<noteq> Some DeadlockDetectedError" for r :: "exn option \<times> 'a transaction_manager"
    by (cases r) (auto simp: except_raise_def split: option.splits)
  then show ?thesis
    by (auto simp: run_transaction_def handle_deadlock_def split: option.splits)
qed

lemma release_locks_all:
  "distinct ls \<Longrightarrow> set ls \<subseteq> held \<Longrightarrow> release_locks ls held = (None, held - set ls)"
proof (induction ls arbitrary: held)
  case Nil
  then show ?case by simp
next
  case (Cons l ls)
  have "set ls \<subseteq> held - {l}" using Cons.prems by auto
  moreover have "held - {l} - set ls = held - set (l # ls)" by auto
  ultimately show ?case using Cons by simp
qed

lemma run_transaction_timeout_state:
  assumes "timer_fires m t k" and "distinct (locks t)" and "set (locks t) \<subseteq> locked m"
    and "transaction_id t \<in> dom (transactions m)"
  shows "snd (run_transaction m t (Some k))
         = m\<lparr>world := rollback t (snd (execute (take k (operations t)) (world m))),
             locked := locked m - set (locks t),
             transactions := (transactions m)(transaction_id t := None)\<rparr>"
  using assms
  by (simp add: run_transaction_def handle_deadlock_def rollback_transaction_def
      release_and_delete_def release_locks_all except_raise_def)

lemma counter_started:
  "start_transaction counter_manager
     = (\<lparr>transaction_id = 1, operations = [], rollback_operations = [], locks = []\<rparr>,
        counter_manager\<lparr>next_transaction_id := 2,
          transactions := [1 \<mapsto> \<lparr>transaction_id = 1, operations = [],
                                   rollback_operations = [], locks = []\<rparr>]\<rparr>)"
  and "add_operation
         (counter_manager\<lparr>next_transaction_id := 2,
            transactions := [1 \<mapsto> \<lparr>transaction_id = 1, operations = [],
                                     rollback_operations = [], locks = []\<rparr>]\<rparr>)
         \<lparr>transaction_id = 1, operations = [], rollback_operations = [], locks = []\<rparr>
         (write_value 5) (write_value 0) 0
       = Returns () (counter_transaction, counter_manager_started)"
  by (simp_all add: start_transaction_def add_operation_def counter_manager_def Let_def
      counter_transaction_def counter_manager_started_def)

text \<open>
  C7: a transaction whose timeout expires is rolled back and its lock released, but
  \<^verbatim>\<open>run_transaction\<close> raises \<^verbatim>\<open>TransactionException\<close> to the caller, not
  \<^verbatim>\<open>DeadlockDetectedError\<close>.
\<close>

theorem run_transaction_timeout_raises_transaction_exception:
  "timer_fires counter_manager_started counter_transaction 0
   \<and> run_transaction counter_manager_started counter_transaction (Some 0)
       = (Some TransactionException,
          \<lparr>world = 0, locked = {}, transactions = Map.empty, next_transaction_id = 2\<rparr>)
   \<and> fst (run_transaction counter_manager_started counter_transaction (Some 0))
       \<noteq> Some DeadlockDetectedError"
  by (simp add: timer_fires_def run_transaction_def handle_deadlock_def
      rollback_transaction_def release_and_delete_def except_raise_def rollback_def
      counter_manager_started_def counter_transaction_def write_value_def)


section \<open>Properties of the update queue\<close>

lemma queue_update_full:
  "fst st = Some q \<Longrightarrow> queue_full q \<Longrightarrow> queue_update st item = Blocks st"
  by (simp add: queue_update_def queue_put_def)

lemma queue_update_never_concurrency:
  "queue_update st item \<noteq> Raises ConcurrencyException st'"
  by (auto simp: queue_update_def queue_put_def split: option.splits if_splits)

lemma insert_or_queue_full_blocks:
  "enable_async_updates cfg \<Longrightarrow> fst st = Some q \<Longrightarrow> queue_full q
     \<Longrightarrow> insert_or_queue cfg st insert_func key val = Blocks st"
  by (simp add: insert_or_queue_def queue_update_full)

lemma delete_or_queue_full_blocks:
  "enable_async_updates cfg \<Longrightarrow> fst st = Some q \<Longrightarrow> queue_full q
     \<Longrightarrow> delete_or_queue cfg st delete_func key = Blocks st"
  by (simp add: delete_or_queue_def queue_update_full)

lemma insert_or_queue_never_concurrency:
  "insert_or_queue cfg st insert_func key val \<noteq> Raises ConcurrencyException st'"
  by (simp add: insert_or_queue_def queue_update_never_concurrency)

lemma delete_or_queue_never_concurrency:
  "delete_or_queue cfg st delete_func key \<noteq> Raises ConcurrencyException st'"
  by (simp add: delete_or_queue_def queue_update_never_concurrency)

text \<open>
  C9: with asynchronous updates on and the queue full, an insert and a delete wait for a
  free slot; they do not raise \<^verbatim>\<open>ConcurrencyException\<close>.
\<close>

theorem full_queue_blocks:
  "insert_or_queue async_config (new_update_queue async_config, []) pairs_insert 7 1
     = Returns () full_state
   \<and> insert_or_queue async_config full_state pairs_insert 8 2 = Blocks full_state
   \<and> delete_or_queue async_config full_state pairs_delete 7 = Blocks full_state"
  by (simp add: insert_or_queue_def delete_or_queue_def queue_update_def queue_put_def
      queue_full_def new_update_queue_def async_config_def full_state_def)

section \<open>Properties of the B+ tree\<close>

text \<open>
  In a tree of order 2, three insertions fill the root leaf, and a range query returns the
  three pairs in ascending order. The fourth insertion splits the root and raises
  \<^verbatim>\<open>TypeError\<close> when it compares the key with the pair in the new root; so does every range
  query on the tree that is left.
\<close>

lemma three_inserts:
  "insert_all 3 (new_bplus_tree 2) (int_pairs [(2, 20), (1, 10), (3, 30)])
     = Some (None, tree_three)"
  by (simp add: int_pairs_def new_bplus_tree_def new_node_def insert_bplus_def
      insert_leaf_def tree_three_def numeral_3_eq_3)

lemma three_range:
  "range_query 3 tree_three (PInt 1) (PInt 3)
     = Some (Inr [PTuple [PInt 1, PInt 10], PTuple [PInt 2, PInt 20],
                  PTuple [PInt 3, PInt 30]])"
  by (simp add: range_query_def tree_three_def numeral_3_eq_3)

lemma fourth_insert:
  "insert_bplus 3 tree_three (PInt 4) (PInt 40) = Some (Some TypeError, tree_split)"
  by (simp add: insert_bplus_def tree_three_def tree_split_def split_child_def new_node_def
      py_index_def list_insert_def py_slice_from_def py_slice_to_def Let_def numeral_3_eq_3)

lemma split_range:
  "range_query 3 tree_split (PInt 1) (PInt 4) = Some (Inl TypeError)"
  by (simp add: range_query_def tree_split_def numeral_3_eq_3)


text \<open>
  In general: while the root is a leaf that is not full, inserting a pair with an integer
  key succeeds; when the root is a full leaf, the insertion splits it and then raises
  \<^verbatim>\<open>TypeError\<close>. So for every order \<open>m \<ge> 1\<close>, the insertion number \<open>2m\<close> raises.
\<close>

lemma int_pair_cases:
  assumes "int_pair x"
  obtains k v where "x = PTuple [PInt k, v]"
  using assms by (induction x rule: int_pair.induct) auto

lemma int_pair_compare:
  "int_pair x \<Longrightarrow> py_compare op (PInt k) x = Inl TypeError"
  by (erule int_pair_cases) simp

lemma leaf_shift_int_pairs:
  assumes "i < length ks" and "\<forall>n < length ks. n \<noteq> i \<longrightarrow> int_pair (ks ! n)"
  shows "\<exists>ks' j. leaf_shift (PInt k) ks i = (None, ks', j) \<and> j < length ks
           \<and> length ks' = length ks \<and> (\<forall>n < length ks. n \<noteq> j \<longrightarrow> int_pair (ks' ! n))"
  using assms
proof (induction i arbitrary: ks)
  case 0
  then show ?case by simp
next
  case (Suc i)
  have "int_pair (ks ! i)" using Suc.prems by simp
  then obtain a v where kv: "ks ! i = PTuple [PInt a, v]" by (rule int_pair_cases)
  show ?case
  proof (cases "k < a")
    case False
    then show ?thesis using Suc.prems kv by simp
  next
    case True
    let ?ks = "ks[Suc i := ks ! i]"
    have len: "i < length ?ks" using Suc.prems(1) by simp
    have others: "\<forall>n < length ?ks. n \<noteq> i \<longrightarrow> int_pair (?ks ! n)"
      using Suc.prems kv by (auto simp: nth_list_update)
    from Suc.IH [OF len others] True kv show ?thesis by simp
  qed
qed

lemma insert_leaf_root:
  assumes "\<forall>x \<in> set ks. int_pair x" and "int (length ks) \<noteq> 2 * m - 1"
  shows "\<exists>ks'. insert_bplus (Suc fuel) (leaf_root m ks) (PInt k) v = Some (None, leaf_root m ks')
           \<and> (\<forall>x \<in> set ks'. int_pair x) \<and> length ks' = Suc (length ks)"
proof -
  let ?ks = "ks @ [PTuple [PNone, PNone]]"
  have "\<forall>n < length ?ks. n \<noteq> length ks \<longrightarrow> int_pair (?ks ! n)"
    using assms(1) by (auto simp: nth_append)
  with leaf_shift_int_pairs [of "length ks" ?ks k]
  obtain ks' j where shift: "leaf_shift (PInt k) ?ks (length ks) = (None, ks', j)"
    and j: "j < length ?ks" and len: "length ks' = length ?ks"
    and others: "\<forall>n < length ?ks. n \<noteq> j \<longrightarrow> int_pair (ks' ! n)"
    by auto
  let ?new = "ks'[j := PTuple [PInt k, v]]"
  have "int_pair (?new ! n)" if "n < length ?new" for n
    using that others len j by (cases "n = j") simp_all
  then have all: "\<forall>x \<in> set ?new. int_pair x"
    by (auto simp: in_set_conv_nth)
  have "insert_bplus (Suc fuel) (leaf_root m ks) (PInt k) v = Some (None, leaf_root m ?new)"
    using assms(2) shift by (simp add: insert_bplus_def leaf_root_def insert_leaf_def)
  then show ?thesis using all len by auto
qed

lemma insert_all_leaf_root:
  assumes "\<forall>x \<in> set ks. int_pair x" and "int (length ks) + int (length kvs) \<le> 2 * m - 1"
  shows "\<exists>ks'. insert_all (Suc fuel) (leaf_root m ks) (int_pairs kvs) = Some (None, leaf_root m ks')
           \<and> (\<forall>x \<in> set ks'. int_pair x) \<and> length ks' = length ks + length kvs"
  using assms
proof (induction kvs arbitrary: ks)
  case Nil
  then show ?case by (auto simp: int_pairs_def)
next
  case (Cons kv kvs)
  obtain k v where kv: "kv = (k, v)" by (cases kv)
  have "int (length ks) \<noteq> 2 * m - 1" using Cons.prems(2) by simp
  from insert_leaf_root [OF Cons.prems(1) this, of fuel k "PInt v"]
  obtain ks1 where step: "insert_bplus (Suc fuel) (leaf_root m ks) (PInt k) (PInt v)
                            = Some (None, leaf_root m ks1)"
    and all1: "\<forall>x \<in> set ks1. int_pair x" and len1: "length ks1 = Suc (length ks)"
    by auto
  have "int (length ks1) + int (length kvs) \<le> 2 * m - 1"
    using Cons.prems(2) len1 by simp
  from Cons.IH [OF all1 this] step kv len1 show ?case
    by (auto simp: int_pairs_def)
qed

lemma insert_full_leaf_root:
  assumes "\<forall>x \<in> set ks. int_pair x" and "int (length ks) = 2 * m - 1"
  shows "\<exists>t'. insert_bplus (Suc fuel) (leaf_root m ks) (PInt k) v = Some (Some TypeError, t')"
proof -
  have m: "1 \<le> m" using assms(2) by linarith
  then have mid: "py_index ks (m - 1) = Some (nat (m - 1))"
    using assms(2) by (auto simp: py_index_def)
  have "nat (m - 1) < length ks" using assms(2) m by linarith
  then have "int_pair (ks ! nat (m - 1))" using assms(1) by simp
  then have cmp: "py_compare Lt (PInt k) (ks ! nat (m - 1)) = Inl TypeError"
    by (rule int_pair_compare)
  show ?thesis
    using assms(2) mid cmp
    by (simp add: insert_bplus_def leaf_root_def split_child_def new_node_def Let_def
        list_insert_def)
qed

lemma insert_all_append:
  "insert_all fuel t kvs = Some (None, t') \<Longrightarrow>
     insert_all fuel t (kvs @ more_kvs) = insert_all fuel t' more_kvs"
  by (induction kvs arbitrary: t) (auto split: option.splits prod.splits)

lemma insert_beyond_full_root_raises:
  assumes "int (length kvs) \<ge> 2 * m" and "1 \<le> m"
  shows "\<exists>t'. insert_all (Suc fuel) (new_bplus_tree m) (int_pairs kvs) = Some (Some TypeError, t')"
proof -
  let ?n = "nat (2 * m - 1)"
  have split: "kvs = take ?n kvs @ drop ?n kvs" by simp
  have len: "int (length (take ?n kvs)) = 2 * m - 1" using assms by auto
  have new: "new_bplus_tree m = leaf_root m []"
    by (simp add: new_bplus_tree_def leaf_root_def new_node_def)
  from insert_all_leaf_root [of "[]" "take ?n kvs" m fuel] len
  obtain ks where first: "insert_all (Suc fuel) (leaf_root m []) (int_pairs (take ?n kvs))
                            = Some (None, leaf_root m ks)"
    and all: "\<forall>x \<in> set ks. int_pair x" and lks: "int (length ks) = 2 * m - 1"
    by auto
  have "drop ?n kvs \<noteq> []" using assms by auto
  then obtain kv rest where rest: "drop ?n kvs = kv # rest" by (cases "drop ?n kvs") auto
  obtain k v where kv: "kv = (k, v)" by (cases kv)
  from insert_full_leaf_root [OF all lks, of fuel k "PInt v"]
  obtain t' where "insert_bplus (Suc fuel) (leaf_root m ks) (PInt k) (PInt v)
                     = Some (Some TypeError, t')" by auto
  then have "insert_all (Suc fuel) (leaf_root m ks) (int_pairs (drop ?n kvs))
               = Some (Some TypeError, t')"
    using rest kv by (simp add: int_pairs_def)
  moreover have "int_pairs kvs = int_pairs (take ?n kvs) @ int_pairs (drop ?n kvs)"
    unfolding int_pairs_def by (metis map_append split)
  ultimately show ?thesis
    using insert_all_append [OF first] new by auto
qed


text \<open>
  C3: in a tree of order 2 the keys 2, 1, 3 are inserted and \<^verbatim>\<open>range_query(1, 3)\<close> returns
  the three pairs in ascending order; the insertion of the key 4 splits the root and raises
  \<^verbatim>\<open>TypeError\<close>, the pair of key 2 is then in no leaf, and \<^verbatim>\<open>range_query(1, 4)\<close> raises
  \<^verbatim>\<open>TypeError\<close>.
\<close>

theorem fourth_insert_raises_type_error:
  "insert_all 3 (new_bplus_tree 2) (int_pairs [(2, 20), (1, 10), (3, 30)])
     = Some (None, tree_three)
   \<and> range_query 3 tree_three (PInt 1) (PInt 3)
       = Some (Inr [PTuple [PInt 1, PInt 10], PTuple [PInt 2, PInt 20],
                    PTuple [PInt 3, PInt 30]])
   \<and> insert_bplus 3 tree_three (PInt 4) (PInt 40) = Some (Some TypeError, tree_split)
   \<and> insert_all 3 (new_bplus_tree 2) (int_pairs [(2, 20), (1, 10), (3, 30), (4, 40)])
       = Some (Some TypeError, tree_split)
   \<and> range_query 3 tree_split (PInt 1) (PInt 4) = Some (Inl TypeError)"
proof -
  have "int_pairs [(2, 20), (1, 10), (3, 30), (4, 40)]
          = int_pairs [(2, 20), (1, 10), (3, 30)] @ [(PInt 4, PInt 40)]"
    by (simp add: int_pairs_def)
  then have "insert_all 3 (new_bplus_tree 2) (int_pairs [(2, 20), (1, 10), (3, 30), (4, 40)])
               = Some (Some TypeError, tree_split)"
    using insert_all_append [OF three_inserts, of "[(PInt 4, PInt 40)]"] fourth_insert
    by simp
  then show ?thesis
    using three_inserts three_range fourth_insert split_range by simp
qed

end
